theory Spec2Isabelle
  imports Complex_Main "HOL-Library.Sublist"
begin

section \<open>Python values\<close>

text \<open>
  An exception is a value: its class, as far as an \<open>except\<close> clause of the program
  tells classes apart, and its text \<open>str(e)\<close>. \<open>ExpiredSignatureError\<close> is the PyJWT
  class of that name, \<open>InvalidTokenError\<close> stands for every other subclass of PyJWT's
  \<open>InvalidTokenError\<close>, and \<open>LibraryError\<close> for any other exception raised by a
  library (requests, the Jira client, Flask, the file system).
\<close>

datatype exn_class =
  ExpiredSignatureError | InvalidTokenError | AttributeError | TypeError | KeyError
  | LibraryError

datatype py_exn = PyExn (exn_class: exn_class) (exn_str: string)

text \<open>
  A decoded JSON document. \<open>JFloat\<close> carries the exact value of the float; an object
  is the list of its entries, read with \<^const>\<open>map_of\<close>.
\<close>

datatype json =
  JNull | JBool bool | JInt int | JFloat rat | JStr string
  | JArr "json list" | JObj "(string \<times> json) list"

fun type_name :: "json \<Rightarrow> string" where
  "type_name JNull = ''NoneType''"
| "type_name (JBool b) = ''bool''"
| "type_name (JInt i) = ''int''"
| "type_name (JFloat r) = ''float''"
| "type_name (JStr s) = ''str''"
| "type_name (JArr xs) = ''list''"
| "type_name (JObj kvs) = ''dict''"

definition quoted :: "string \<Rightarrow> string" where
  \<comment> \<open>a name between single quotes, as Python's messages print it\<close>
  "quoted s = [CHR 0x27] @ s @ [CHR 0x27]"

definition no_attribute :: "json \<Rightarrow> string \<Rightarrow> py_exn" where
  "no_attribute v a =
     PyExn AttributeError (quoted (type_name v) @ '' object has no attribute '' @ quoted a)"

definition json_get :: "json \<Rightarrow> string \<Rightarrow> json \<Rightarrow> py_exn + json" where
  \<comment> \<open>\<open>v.get(k, d)\<close>: only a dict has the method\<close>
  "json_get v k d =
     (case v of
        JObj kvs \<Rightarrow> Inr (case map_of kvs k of None \<Rightarrow> d | Some x \<Rightarrow> x)
      | _ \<Rightarrow> Inl (no_attribute v ''get''))"

text \<open>
  A key of a Python dict. Keys are compared with \<open>==\<close>, under which \<open>True\<close>, \<open>1\<close>
  and \<open>1.0\<close> are one key; a list or a dict is unhashable and cannot be a key.
\<close>

datatype key = KNone | KNum rat | KStr string

fun py_key :: "json \<Rightarrow> key option" where
  "py_key JNull = Some KNone"
| "py_key (JBool b) = Some (KNum (if b then 1 else 0))"
| "py_key (JInt i) = Some (KNum (of_int i))"
| "py_key (JFloat r) = Some (KNum r)"
| "py_key (JStr s) = Some (KStr s)"
| "py_key (JArr xs) = None"
| "py_key (JObj kvs) = None"

definition unhashable :: "json \<Rightarrow> py_exn" where
  "unhashable v = PyExn TypeError (''unhashable type: '' @ quoted (type_name v))"

section \<open>Python strings\<close>

text \<open>
  A Python \<open>str\<close> is modelled as a \<^typ>\<open>string\<close>, one \<^typ>\<open>char\<close> per code point,
  which covers the code points below 256. The character classes and the case mapping
  are those of Python on that range. Upper-casing leaves the range for three characters
  (the sharp s gives \<open>SS\<close>, the micro sign and the y with diaeresis give letters beyond
  255), so \<^term>\<open>upper\<close> returns code points as numbers. The emoji of the log messages,
  which lie beyond 255, are written as their UTF-8 bytes.
\<close>

definition is_space :: "char \<Rightarrow> bool" where
  \<comment> \<open>\<open>str.isspace\<close>, the characters \<open>strip\<close> removes: tab, LF, VT, FF, CR, the separators
      0x1C..0x1F, blank, NEL and the no-break space\<close>
  "is_space c =
     (let n = of_char c :: nat
      in (9 \<le> n \<and> n \<le> 13) \<or> (28 \<le> n \<and> n \<le> 32) \<or> n = 133 \<or> n = 160)"

definition is_lower :: "char \<Rightarrow> bool" where
  \<comment> \<open>\<open>str.islower\<close> of one character: a..z, the two ordinal indicators, the micro sign,
      and the Latin-1 small letters from sharp s on, the division sign apart\<close>
  "is_lower c =
     (let n = of_char c :: nat
      in (97 \<le> n \<and> n \<le> 122) \<or> n = 170 \<or> n = 181 \<or> n = 186
         \<or> (223 \<le> n \<and> n \<le> 246) \<or> (248 \<le> n \<and> n \<le> 255))"

definition is_upper :: "char \<Rightarrow> bool" where
  \<comment> \<open>\<open>str.isupper\<close> of one character: A..Z and the Latin-1 capitals, the
      multiplication sign apart\<close>
  "is_upper c =
     (let n = of_char c :: nat
      in (65 \<le> n \<and> n \<le> 90) \<or> (192 \<le> n \<and> n \<le> 214) \<or> (216 \<le> n \<and> n \<le> 222))"

definition upper_char :: "char \<Rightarrow> nat list" where
  \<comment> \<open>\<open>str.upper()\<close> of one character, as code points\<close>
  "upper_char c =
     (let n = of_char c :: nat
      in if (97 \<le> n \<and> n \<le> 122) \<or> (224 \<le> n \<and> n \<le> 246) \<or> (248 \<le> n \<and> n \<le> 254)
         then [n - 32]
         else if n = 181 then [924]
         else if n = 223 then [83, 83]
         else if n = 255 then [376]
         else [n])"

definition upper :: "string \<Rightarrow> nat list" where
  \<comment> \<open>\<open>str.upper()\<close>\<close>
  "upper s = concat (map upper_char s)"

definition isupper :: "string \<Rightarrow> bool" where
  \<comment> \<open>\<open>str.isupper()\<close>: some upper-case character, and no lower-case one\<close>
  "isupper s = (filter is_upper s \<noteq> [] \<and> filter is_lower s = [])"

definition strip :: "string \<Rightarrow> string" where
  \<comment> \<open>\<open>str.strip()\<close>\<close>
  "strip s = rev (dropWhile is_space (rev (dropWhile is_space s)))"

fun split :: "char \<Rightarrow> string \<Rightarrow> string list" where
  \<comment> \<open>\<open>s.split(sep)\<close> for a one-character separator: never the empty list\<close>
  "split sep [] = [] # []"
| "split sep (c # cs) =
     (if c = sep then [] # split sep cs
      else (case split sep cs of [] \<Rightarrow> [c] # [] | w # ws \<Rightarrow> (c # w) # ws))"

definition split1 :: "char \<Rightarrow> string \<Rightarrow> string list" where
  \<comment> \<open>\<open>s.split(sep, 1)\<close>: at most one cut, at the first separator\<close>
  "split1 sep s =
     (if sep \<in> set s then [takeWhile (\<lambda>c. c \<noteq> sep) s, tl (dropWhile (\<lambda>c. c \<noteq> sep) s)]
      else [s])"

fun join :: "string \<Rightarrow> string list \<Rightarrow> string" where
  \<comment> \<open>\<open>sep.join(xs)\<close>\<close>
  "join sep [] = []"
| "join sep [x] = x"
| "join sep (x # y # ys) = x @ sep @ join sep (y # ys)"

fun str_nat :: "nat \<Rightarrow> string" where
  \<comment> \<open>\<open>str(n)\<close> for \<open>n \<ge> 0\<close>\<close>
  "str_nat n =
     (if n < 10 then [char_of (48 + n)] else str_nat (n div 10) @ [char_of (48 + n mod 10)])"

definition str_int :: "int \<Rightarrow> string" where
  "str_int i = (if i < 0 then ''-'' @ str_nat (nat (- i)) else str_nat (nat i))"

section \<open>LlamaJiraEnhancer: extraction of the description\<close>

definition has_marker :: "string \<Rightarrow> bool" where
  \<comment> \<open>\<open>'ENHANCED DESCRIPTION:' in line.upper()\<close>\<close>
  "has_marker line = sublist (map of_char ''ENHANCED DESCRIPTION:'') (upper line)"

definition after_header :: "string \<Rightarrow> string list" where
  \<comment> \<open>what the marker branch appends: the stripped text after the first colon, unless empty\<close>
  "after_header line =
     (let parts = split1 (CHR '':'') line
      in if length parts > 1 \<and> strip (parts ! 1) \<noteq> [] then [strip (parts ! 1)] else [])"

definition is_section_header :: "string \<Rightarrow> bool" where
  \<comment> \<open>\<open>line.strip().isupper() and ':' in line and len(line.strip()) < 50\<close>\<close>
  "is_section_header line =
     (isupper (strip line) \<and> CHR '':'' \<in> set line \<and> length (strip line) < 50)"

fun scan_lines :: "bool \<Rightarrow> string list \<Rightarrow> string list \<Rightarrow> string list" where
  \<comment> \<open>the \<open>for line in lines\<close> loop, from the state \<open>(in_description, description_lines)\<close>;
      \<open>break\<close> returns what has been accumulated\<close>
  "scan_lines in_description description_lines [] = description_lines"
| "scan_lines in_description description_lines (line # lines) =
     (if has_marker line
      then scan_lines True (description_lines @ after_header line) lines
      else if in_description
      then (if is_section_header line then description_lines
            else scan_lines in_description (description_lines @ [line]) lines)
      else scan_lines in_description description_lines lines)"

definition extract_description_from_output :: "string \<Rightarrow> string" where
  "extract_description_from_output llama_output =
     strip (join ''\<newline>'' (scan_lines False [] (split (CHR ''\<newline>'') llama_output)))"

section \<open>Tickets\<close>

text \<open>
  A ticket is the dict the Jira client returns, typed as Jira delivers it. An entry of a
  dict is \<open>Missing\<close> (no such key), \<open>Null\<close> (the key with value \<open>None\<close>) or a value. A
  priority, issue type, assignee or status is an object of which the program reads one
  entry (\<open>name\<close>, or \<open>displayName\<close> for the assignee), so it is modelled by that entry.
\<close>

datatype 'a jfield = Missing | Null | Val 'a

record component =
  component_name :: string

record issue_fields =
  summary :: "string jfield"
  description :: "string jfield"
  priority :: "string jfield jfield"
  issuetype :: "string jfield jfield"
  assignee :: "string jfield jfield"
  status :: "string jfield jfield"
  labels :: "string list jfield"
  components :: "component list jfield"
  fields_enhanced_description :: "string jfield"

record issue =
  key :: string
  fields_dict :: issue_fields

fun fmt_get :: "string jfield \<Rightarrow> string \<Rightarrow> string" where
  \<comment> \<open>\<open>f"{d.get(k, default)}"\<close>: a stored \<open>None\<close> is printed as \<open>None\<close>\<close>
  "fmt_get Missing d = d"
| "fmt_get Null d = ''None''"
| "fmt_get (Val s) d = s"

fun fmt_name :: "string jfield jfield \<Rightarrow> string \<Rightarrow> string" where
  \<comment> \<open>\<open>f"{fields.get(k, {}).get(n, default) if fields.get(k) else default}"\<close>\<close>
  "fmt_name (Val obj) d = fmt_get obj d"
| "fmt_name Missing d = d"
| "fmt_name Null d = d"

fun fmt_list :: "string list jfield \<Rightarrow> string" where
  \<comment> \<open>\<open>f"{', '.join(xs) if xs else 'None'}"\<close>\<close>
  "fmt_list (Val (x # xs)) = join '', '' (x # xs)"
| "fmt_list (Val []) = ''None''"
| "fmt_list Missing = ''None''"
| "fmt_list Null = ''None''"

fun component_names :: "component list jfield \<Rightarrow> string list jfield" where
  \<comment> \<open>\<open>[c['name'] for c in fields.get('components', [])]\<close>, under the same guard\<close>
  "component_names (Val cs) = Val (map component_name cs)"
| "component_names Missing = Missing"
| "component_names Null = Null"

section \<open>LlamaJiraEnhancer\<close>

record llama_jira_enhancer =
  base_url :: string
  model_name :: string
  policy_rules :: string

definition load_default_policy :: string where
  \<open>load_default_policy = ''\<newline>'' @ join ''\<newline>''
    [
     ''JIRA TICKET ENHANCEMENT POLICY:'',
     '''',
     ''1. MANDATORY FIELDS:'',
     ''   - All tickets must have clear, descriptive titles'',
     ''   - Descriptions must include specific details, not vague statements'',
     ''   - Priority must be set (Critical, High, Medium, Low)'',
     ''   - Issue type must be specified (Bug, Story, Task, Epic)'',
     '''',
     ''2. BUG TICKETS:'',
     ''   - Must include reproduction steps'',
     ''   - Must specify expected vs actual behavior'',
     ''   - Should include environment details (browser, OS, version)'',
     ''   - Must have severity assessment'',
     '''',
     ''3. STORY/FEATURE TICKETS:'',
     ''   - Must include acceptance criteria'',
     ''   - Should have user story format: "As a [user], I want [goal] so that [benefit]"'',
     ''   - Must include definition of done'',
     '''',
     ''4. TASK TICKETS:'',
     ''   - Must have clear action items'',
     ''   - Should include estimated effort'',
     ''   - Must specify deliverables'',
     '''',
     ''5. GENERAL RULES:'',
     ''   - Use professional, clear language'',
     ''   - Remove duplicate information'',
     ''   - Add relevant labels and components'',
     ''   - Suggest appropriate assignee if obvious'',
     ''   - Flag missing critical information''
    ] @ ''\<newline>''\<close>

definition LlamaJiraEnhancer :: "string \<Rightarrow> int \<Rightarrow> string \<Rightarrow> llama_jira_enhancer" where
  \<comment> \<open>\<open>__init__\<close>; the defaults are \<open>localhost\<close>, \<open>11434\<close> and \<open>llama3:8b\<close>\<close>
  "LlamaJiraEnhancer ollama_host ollama_port name =
     \<lparr>base_url = ''http://'' @ ollama_host @ '':'' @ str_int ollama_port,
      model_name = name,
      policy_rules = load_default_policy\<rparr>"

definition issue_info :: "issue \<Rightarrow> string" where
  "issue_info i =
     (let f = fields_dict i
      in ''\<newline>CURRENT TICKET:\<newline>''
         @ ''Key: '' @ key i @ ''\<newline>''
         @ ''Title: '' @ fmt_get (summary f) ''No title'' @ ''\<newline>''
         @ ''Description: '' @ fmt_get (description f) ''No description'' @ ''\<newline>''
         @ ''Priority: '' @ fmt_name (priority f) ''Not set'' @ ''\<newline>''
         @ ''Issue Type: '' @ fmt_name (issuetype f) ''Not set'' @ ''\<newline>''
         @ ''Assignee: '' @ fmt_name (assignee f) ''Unassigned'' @ ''\<newline>''
         @ ''Status: '' @ fmt_name (status f) ''Unknown'' @ ''\<newline>''
         @ ''Labels: '' @ fmt_list (labels f) @ ''\<newline>''
         @ ''Components: '' @ fmt_list (component_names (components f)) @ ''\<newline>'')"

definition task_text :: string where
  "task_text =
     ''TASK: Analyze the current ticket and provide an enhanced description that follows the policy rules above. \<newline>''
     @ ''Focus ONLY on improving the description field while maintaining all the important information.\<newline>''
     @ ''\<newline>''
     @ ''Provide your response in the following format:\<newline>''
     @ ''\<newline>''
     @ ''ENHANCED DESCRIPTION:\<newline>''
     @ ''[Your enhanced description here - be detailed, structured, and professional]\<newline>''
     @ ''\<newline>''
     @ ''Please enhance this ticket description now:''"

definition build_prompt :: "llama_jira_enhancer \<Rightarrow> issue \<Rightarrow> string \<Rightarrow> string" where
  "build_prompt self i custom_instructions =
     policy_rules self @ ''\<newline>\<newline>''
     @ issue_info i @ ''\<newline>\<newline>''
     @ custom_instructions @ ''\<newline>\<newline>''
     @ task_text"

section \<open>The outside world of the enhancer\<close>

text \<open>
  The generation endpoint and the Jira client are not part of the program: the state
  carries their behaviour as functions, together with a log of the calls the program
  makes to them. A response of the endpoint is given by what its two methods do. The
  clock is read through \<open>time_time\<close>. What the program prints is not part of the state.
\<close>

record generate_options =
  temperature :: rat
  top_p :: rat
  num_ctx :: int

record generate_payload =
  model :: string
  prompt :: string
  stream :: bool
  options :: generate_options

record post_request =
  url :: string
  json_payload :: generate_payload
  timeout :: nat

record http_response =
  raise_for_status :: "py_exn option"
  response_json :: "py_exn + json"

record world =
  requests_post :: "post_request \<Rightarrow> py_exn + http_response"
  posts :: "post_request list"
  jira_issue :: "string \<Rightarrow> py_exn + issue"
  jira_update_issue :: "string \<Rightarrow> string \<Rightarrow> py_exn option"  \<comment> \<open>\<open>jira.issue_update\<close>\<close>
  updates :: "(string \<times> string) list"
  time_time :: real

text \<open>
  The dict \<open>enhance_ticket\<close> returns has the keys \<open>success\<close>, \<open>original_issue\<close> and
  \<open>timestamp\<close>, and either \<open>enhanced_description\<close> and \<open>full_response\<close> or \<open>error\<close>:
  an absent key is \<open>None\<close> here, and reading it is a \<open>KeyError\<close>.
\<close>

record enhancement_result =
  success :: bool
  enhanced_description :: "string option"
  full_response :: "json option"
  error :: "string option"
  original_issue :: issue
  timestamp :: real

definition subscript :: "'a option \<Rightarrow> string \<Rightarrow> py_exn + 'a" where
  \<comment> \<open>\<open>d[k]\<close> on such a dict\<close>
  "subscript entry k = (case entry of None \<Rightarrow> Inl (PyExn KeyError (quoted k)) | Some v \<Rightarrow> Inr v)"

section \<open>LlamaJiraEnhancer: the generation call\<close>

definition call_model ::
  "llama_jira_enhancer \<Rightarrow> world \<Rightarrow> string \<Rightarrow> (py_exn + json) \<times> world" where
  "call_model self w p =
     (let request =
            \<lparr>url = base_url self @ ''/api/generate'',
             json_payload =
               \<lparr>model = model_name self, prompt = p, stream = False,
                options = \<lparr>temperature = 1 / 10, top_p = 9 / 10, num_ctx = 4096\<rparr>\<rparr>,
             timeout = 60\<rparr>;
          w' = w\<lparr>posts := posts w @ [request]\<rparr>
      in case requests_post w request of
           Inl e \<Rightarrow> (Inl e, w')
         | Inr response \<Rightarrow>
             (case raise_for_status response of
                Some e \<Rightarrow> (Inl e, w')
              | None \<Rightarrow>
                  (case response_json response of
                     Inl e \<Rightarrow> (Inl e, w')
                   | Inr result \<Rightarrow> (json_get result ''response'' (JStr []), w'))))"

definition extract_description :: "json \<Rightarrow> py_exn + string" where
  \<comment> \<open>\<open>_extract_description_from_output\<close> on whatever \<open>_call_model\<close> returned: only a
      \<open>str\<close> has \<open>split\<close>\<close>
  "extract_description v =
     (case v of
        JStr s \<Rightarrow> Inr (extract_description_from_output s)
      | _ \<Rightarrow> Inl (no_attribute v ''split''))"

definition failed :: "world \<Rightarrow> issue \<Rightarrow> py_exn \<Rightarrow> enhancement_result" where
  \<comment> \<open>the dict of the \<open>except Exception as e\<close> branch\<close>
  "failed w i e =
     \<lparr>success = False, enhanced_description = None, full_response = None,
      error = Some (exn_str e), original_issue = i, timestamp = time_time w\<rparr>"

definition enhance_ticket ::
  "llama_jira_enhancer \<Rightarrow> world \<Rightarrow> issue \<Rightarrow> string \<Rightarrow> enhancement_result \<times> world" where
  "enhance_ticket self w i custom_instructions =
     (let p = build_prompt self i custom_instructions
      in case call_model self w p of
           (Inl e, w') \<Rightarrow> (failed w' i e, w')
         | (Inr response, w') \<Rightarrow>
             (case extract_description response of
                Inl e \<Rightarrow> (failed w' i e, w')
              | Inr d \<Rightarrow>
                  (\<lparr>success = True, enhanced_description = Some d,
                    full_response = Some response, error = None,
                    original_issue = i, timestamp = time_time w'\<rparr>, w')))"

section \<open>JiraIssueEnhancer\<close>

record jira_issue_enhancer =
  llama_enhancer :: llama_jira_enhancer

definition JiraIssueEnhancer :: jira_issue_enhancer where
  \<comment> \<open>\<open>__init__\<close>: the Jira client is the \<^const>\<open>jira_issue\<close> and
      \<^const>\<open>jira_update_issue\<close> of the world\<close>
  "JiraIssueEnhancer =
     \<lparr>llama_enhancer = LlamaJiraEnhancer ''localhost'' 11434 ''llama3:8b''\<rparr>"

text \<open>
  \<open>isinstance(issue, str)\<close>: a ticket is referred to by its key or by the ticket itself.
\<close>

datatype ticket_ref = Key string | Issue issue

definition get_issue :: "world \<Rightarrow> string \<Rightarrow> py_exn + issue" where
  "get_issue w ticket_key = jira_issue w ticket_key"

definition resolve :: "world \<Rightarrow> ticket_ref \<Rightarrow> py_exn + issue" where
  \<comment> \<open>\<open>if isinstance(issue, str): issue = self.get_issue(issue)\<close>, outside any \<open>try\<close>\<close>
  "resolve w ref = (case ref of Key k \<Rightarrow> get_issue w k | Issue i \<Rightarrow> Inr i)"

definition enhance_issue_description ::
  "jira_issue_enhancer \<Rightarrow> world \<Rightarrow> ticket_ref \<Rightarrow> string
     \<Rightarrow> (py_exn + enhancement_result) \<times> world" where
  "enhance_issue_description self w ref custom_instructions =
     (case resolve w ref of
        Inl e \<Rightarrow> (Inl e, w)
      | Inr i \<Rightarrow>
          (let (r, w') = enhance_ticket (llama_enhancer self) w i custom_instructions
           in (Inr r, w')))"

definition to_string_issue :: "issue \<Rightarrow> py_exn + string" where
  \<comment> \<open>the body of \<open>to_string\<close> once the ticket is at hand; the emoji are UTF-8 bytes\<close>
  "to_string_issue i =
     (let f = fields_dict i;
          head = ''\<newline>'' @ [CHR 0xF0, CHR 0x9F, CHR 0x8E, CHR 0xAB] @ '' ISSUE '' @ key i @ ''\<newline>''
            @ replicate 50 (CHR ''='') @ ''\<newline>''
            @ [CHR 0xF0, CHR 0x9F, CHR 0x93, CHR 0x8B] @ '' Title: ''
            @ fmt_get (summary f) ''No title'' @ ''\<newline>''
      in case issuetype f of
           Null \<Rightarrow> Inl (no_attribute JNull ''get'')
         | _ \<Rightarrow>
           (let type_line =
                  [CHR 0xF0, CHR 0x9F, CHR 0x8F, CHR 0xB7, CHR 0xEF, CHR 0xB8, CHR 0x8F] @ ''  Type: ''
                  @ (case issuetype f of Val obj \<Rightarrow> fmt_get obj ''Unknown'' | _ \<Rightarrow> ''Unknown'')
                  @ ''\<newline>'';
                priority_line =
                  [CHR 0xE2, CHR 0x9A, CHR 0xA1] @ '' Priority: ''
                  @ fmt_name (priority f) ''Not set'' @ ''\<newline>''
            in case description f of
                 Null \<Rightarrow> Inl (PyExn TypeError (''object of type '' @ quoted ''NoneType'' @ '' has no len()''))
               | _ \<Rightarrow>
                 (let original_desc = (case description f of Val s \<Rightarrow> s | _ \<Rightarrow> []);
                      enhanced_desc =
                        (case fields_enhanced_description f of Val s \<Rightarrow> s | _ \<Rightarrow> []);
                      result = head @ type_line @ priority_line
                        @ ''\<newline>'' @ [CHR 0xF0, CHR 0x9F, CHR 0x93, CHR 0x9D] @ '' DESCRIPTION (''
                        @ str_nat (length original_desc) @ '' chars):\<newline>''
                        @ replicate 30 (CHR ''-'') @ ''\<newline>''
                        @ original_desc
                  in Inr (if enhanced_desc \<noteq> []
                          then result @ ''\<newline>'' @ [CHR 0xF0, CHR 0x9F, CHR 0x93, CHR 0x9D]
                            @ '' ENHANCED DESCRIPTION ('' @ str_nat (length enhanced_desc)
                            @ '' chars):\<newline>'' @ enhanced_desc
                          else result))))"

definition to_string :: "world \<Rightarrow> ticket_ref \<Rightarrow> py_exn + string" where
  "to_string w ref =
     (case resolve w ref of Inl e \<Rightarrow> Inl e | Inr i \<Rightarrow> to_string_issue i)"

definition updated_message :: "string \<Rightarrow> string" where
  "updated_message issue_key =
     [CHR 0xE2, CHR 0x9C, CHR 0x85] @ '' Successfully updated description for '' @ issue_key"

definition update_failed_message :: "string \<Rightarrow> py_exn \<Rightarrow> string" where
  "update_failed_message issue_key e =
     [CHR 0xE2, CHR 0x9D, CHR 0x8C] @ '' Failed to update '' @ issue_key @ '': '' @ exn_str e"

definition enhancement_failed_message :: "string \<Rightarrow> string \<Rightarrow> string" where
  "enhancement_failed_message issue_key err =
     [CHR 0xE2, CHR 0x9D, CHR 0x8C] @ '' Enhancement failed for '' @ issue_key @ '': '' @ err"

definition issue_update :: "world \<Rightarrow> string \<Rightarrow> string \<Rightarrow> (bool \<times> string) \<times> world" where
  \<comment> \<open>the \<open>try\<close> block of \<open>update_issue_description\<close>: one call of the tracker's write\<close>
  "issue_update w issue_key d =
     (let w' = w\<lparr>updates := updates w @ [(issue_key, d)]\<rparr>
      in case jira_update_issue w issue_key d of
           None \<Rightarrow> ((True, updated_message issue_key), w')
         | Some e \<Rightarrow> ((False, update_failed_message issue_key e), w'))"

definition update_issue_description ::
  "world \<Rightarrow> ticket_ref \<Rightarrow> string \<Rightarrow> (py_exn + bool \<times> string) \<times> world" where
  "update_issue_description w ref d =
     (case resolve w ref of
        Inl e \<Rightarrow> (Inl e, w)
      | Inr i \<Rightarrow>
          (let issue_key = (case ref of Key k \<Rightarrow> k | Issue j \<Rightarrow> key j);
               (r, w') = issue_update w issue_key d
           in (Inr r, w')))"

definition enhance_and_update_issue ::
  "jira_issue_enhancer \<Rightarrow> world \<Rightarrow> ticket_ref \<Rightarrow> string
     \<Rightarrow> (py_exn + bool \<times> string) \<times> world" where
  "enhance_and_update_issue self w ref custom_instructions =
     (case resolve w ref of
        Inl e \<Rightarrow> (Inl e, w)
      | Inr i \<Rightarrow>
          (let issue_key = (case ref of Key k \<Rightarrow> k | Issue j \<Rightarrow> key j)
           in case to_string w (Issue i) of
             Inl e \<Rightarrow> (Inl e, w)
           | Inr printed \<Rightarrow>
               (case enhance_issue_description self w (Issue i) custom_instructions of
                  (Inl e, w') \<Rightarrow> (Inl e, w')
                | (Inr enhancement_result, w') \<Rightarrow>
                    (if \<not> success enhancement_result
                     then (case subscript (error enhancement_result) ''error'' of
                             Inl e \<Rightarrow> (Inl e, w')
                           | Inr err \<Rightarrow>
                               (Inr (False, enhancement_failed_message issue_key err), w'))
                     else (case subscript (enhanced_description enhancement_result)
                                  ''enhanced_description'' of
                             Inl e \<Rightarrow> (Inl e, w')
                           | Inr d \<Rightarrow> update_issue_description w' (Issue i) d)))))"

section \<open>JiraConnectApp\<close>

text \<open>
  The state of the application is the registry \<open>installed_tenants\<close> and the file
  \<open>tenants.json\<close>, which holds the mapping last dumped to it (\<open>None\<close> while there is no
  file). Opening the file for writing may fail; \<open>write_error\<close> is the exception it then
  raises.
\<close>

record tenant =
  shared_secret :: json
  tenant_base_url :: json
  installed_at :: real

record app =
  installed_tenants :: "key \<rightharpoonup> tenant"
  tenants_file :: "(key \<rightharpoonup> tenant) option"
  write_error :: "py_exn option"

datatype body = Text string | Json json

type_synonym response = "body \<times> nat"

definition jsonify_error :: "string \<Rightarrow> body" where
  \<comment> \<open>\<open>jsonify({'error': msg})\<close>\<close>
  "jsonify_error msg = Json (JObj [(''error'', JStr msg)])"

definition save_tenants :: "app \<Rightarrow> py_exn + app" where
  "save_tenants a =
     (case write_error a of
        Some e \<Rightarrow> Inl e
      | None \<Rightarrow> Inr (a\<lparr>tenants_file := Some (installed_tenants a)\<rparr>))"

definition serve_installed :: "app \<Rightarrow> real \<Rightarrow> py_exn + json \<Rightarrow> response \<times> app" where
  \<comment> \<open>\<open>get_json\<close> is what \<open>request.get_json()\<close> does, \<open>now\<close> what \<open>time.time()\<close> returns\<close>
  "serve_installed a now get_json =
     (case get_json of
        Inl e \<Rightarrow> ((jsonify_error (exn_str e), 400), a)
      | Inr data \<Rightarrow>
          (case json_get data ''clientKey'' JNull of
             Inl e \<Rightarrow> ((jsonify_error (exn_str e), 400), a)
           | Inr client_key \<Rightarrow>
               (case json_get data ''sharedSecret'' JNull of
                  Inl e \<Rightarrow> ((jsonify_error (exn_str e), 400), a)
                | Inr secret \<Rightarrow>
                    (case json_get data ''baseUrl'' JNull of
                       Inl e \<Rightarrow> ((jsonify_error (exn_str e), 400), a)
                     | Inr base \<Rightarrow>
                         (case py_key client_key of
                            None \<Rightarrow> ((jsonify_error (exn_str (unhashable client_key)), 400), a)
                          | Some k \<Rightarrow>
                              (let a' = a\<lparr>installed_tenants := (installed_tenants a)
                                     (k \<mapsto> \<lparr>shared_secret = secret, tenant_base_url = base,
                                            installed_at = now\<rparr>)\<rparr>
                               in case save_tenants a' of
                                    Inl e \<Rightarrow> ((jsonify_error (exn_str e), 400), a')
                                  | Inr a'' \<Rightarrow> ((Text [], 204), a'')))))))"

definition serve_uninstalled :: "app \<Rightarrow> py_exn + json \<Rightarrow> response \<times> app" where
  "serve_uninstalled a get_json =
     (case get_json of
        Inl e \<Rightarrow> ((jsonify_error (exn_str e), 400), a)
      | Inr data \<Rightarrow>
          (case json_get data ''clientKey'' JNull of
             Inl e \<Rightarrow> ((jsonify_error (exn_str e), 400), a)
           | Inr client_key \<Rightarrow>
               (case py_key client_key of
                  None \<Rightarrow> ((jsonify_error (exn_str (unhashable client_key)), 400), a)
                | Some k \<Rightarrow>
                    (case installed_tenants a k of
                       Some t \<Rightarrow>
                         ((Text [], 204),
                          a\<lparr>installed_tenants := (installed_tenants a)(k := None)\<rparr>)
                     | None \<Rightarrow> ((Text [], 204), a)))))"

text \<open>
  PyJWT is not part of the program: \<open>decode_unverified\<close> is
  \<open>jwt.decode(token, options={"verify_signature": False})\<close>, which returns the claims of
  the token, and \<open>decode_verified\<close> is \<open>jwt.decode(token, shared_secret,
  algorithms=['HS256'])\<close>. The wrapped handler \<open>f\<close> receives the verified payload.
\<close>

definition auth_failure :: "py_exn \<Rightarrow> response" where
  \<comment> \<open>the three \<open>except\<close> clauses, in their order\<close>
  "auth_failure e =
     (if exn_class e = ExpiredSignatureError then (jsonify_error ''Token expired'', 401)
      else if exn_class e = InvalidTokenError then (jsonify_error ''Invalid token'', 401)
      else (jsonify_error (''Authentication error: '' @ exn_str e), 401))"

definition jwt_required ::
  "app \<Rightarrow> (string \<Rightarrow> py_exn + (string \<times> json) list) \<Rightarrow> (string \<Rightarrow> json \<Rightarrow> py_exn + json)
     \<Rightarrow> (json \<Rightarrow> py_exn + response) \<Rightarrow> string \<Rightarrow> response" where
  "jwt_required a decode_unverified decode_verified f auth_header =
     (if \<not> prefix ''JWT '' auth_header
      then (jsonify_error ''Missing or invalid JWT token'', 401)
      else
        (let token = drop 4 auth_header
         in case decode_unverified token of
              Inl e \<Rightarrow> auth_failure e
            | Inr unverified \<Rightarrow>
                (let client_key = (case map_of unverified ''iss'' of None \<Rightarrow> JNull | Some v \<Rightarrow> v)
                 in case py_key client_key of
                      None \<Rightarrow> auth_failure (unhashable client_key)
                    | Some k \<Rightarrow>
                        (case installed_tenants a k of
                           None \<Rightarrow> (jsonify_error ''App not installed for this tenant'', 401)
                         | Some t \<Rightarrow>
                             (case decode_verified token (shared_secret t) of
                                Inl e \<Rightarrow> auth_failure e
                              | Inr payload \<Rightarrow>
                                  (case f payload of
                                     Inl e \<Rightarrow> auth_failure e
                                   | Inr r \<Rightarrow> r))))))"

section \<open>Example inputs\<close>

definition example_fields :: issue_fields where
  "example_fields =
     \<lparr>summary = Val ''Login fails'',
      description = Val ''Login fails on Safari, see DIGI-894'',
      priority = Val (Val ''High''),
      issuetype = Val (Val ''Bug''),
      assignee = Val (Val ''Dana Kim''),
      status = Val (Val ''Open''),
      labels = Val [''web'', ''auth''],
      components = Val [\<lparr>component_name = ''UI''\<rparr>, \<lparr>component_name = ''Login''\<rparr>],
      fields_enhanced_description = Missing\<rparr>"

definition example_issue :: issue where
  "example_issue = \<lparr>key = ''DIGI-894'', fields_dict = example_fields\<rparr>"

definition undescribed_issue :: issue where
  \<comment> \<open>a ticket as Jira delivers it when nothing was entered as its description\<close>
  "undescribed_issue =
     \<lparr>key = ''DIGI-895'', fields_dict = example_fields\<lparr>description := Null\<rparr>\<rparr>"

definition blank_fields :: issue_fields where
  \<comment> \<open>nothing populated, in the ways a dict can say so\<close>
  "blank_fields =
     \<lparr>summary = Missing, description = Missing, priority = Missing, issuetype = Null,
      assignee = Val Missing, status = Missing, labels = Val [], components = Null,
      fields_enhanced_description = Missing\<rparr>"

definition blank_issue :: issue where
  "blank_issue = \<lparr>key = ''DIGI-896'', fields_dict = blank_fields\<rparr>"

definition not_found :: py_exn where
  "not_found = PyExn LibraryError ''Issue does not exist or you do not have permission to see it.''"

definition server_error :: py_exn where
  "server_error = PyExn LibraryError
     ''500 Server Error: Internal Server Error for url: http://localhost:11434/api/generate''"

definition answer :: http_response where
  \<comment> \<open>a 200 response of the endpoint\<close>
  "answer =
     \<lparr>raise_for_status = None,
      response_json = Inr (JObj [(''model'', JStr ''llama3:8b''),
        (''response'', JStr ''ENHANCED DESCRIPTION:\<newline>Login fails on Safari 17.''),
        (''done'', JBool True)])\<rparr>"

definition answer_without_text :: http_response where
  \<comment> \<open>a 200 response whose body has no \<open>response\<close> entry\<close>
  "answer_without_text =
     \<lparr>raise_for_status = None, response_json = Inr (JObj [(''done'', JBool True)])\<rparr>"

definition internal_error :: http_response where
  \<comment> \<open>a 500 response of the endpoint\<close>
  "internal_error =
     \<lparr>raise_for_status = Some server_error,
      response_json = Inl (PyExn LibraryError ''Expecting value: line 1 column 1 (char 0)'')\<rparr>"

definition forbidden :: py_exn where
  "forbidden = PyExn LibraryError ''403 Client Error: Forbidden''"

definition example_world :: "http_response \<Rightarrow> py_exn option \<Rightarrow> world" where
  \<comment> \<open>the tracker knows the two example tickets and answers every write in the given way
      (\<open>None\<close>: accepted); the endpoint answers every request with the given response\<close>
  "example_world response write_result =
     \<lparr>requests_post = (\<lambda>request. Inr response),
      posts = [],
      jira_issue = (\<lambda>k. if k = ''DIGI-894'' then Inr example_issue
                        else if k = ''DIGI-895'' then Inr undescribed_issue
                        else Inl not_found),
      jira_update_issue = (\<lambda>k d. write_result),
      updates = [],
      time_time = 0\<rparr>"

definition example_tenant :: tenant where
  "example_tenant =
     \<lparr>shared_secret = JStr ''s3cr3t'',
      tenant_base_url = JStr ''https://acme.atlassian.net'',
      installed_at = 1700000000\<rparr>"

definition example_app :: app where
  \<comment> \<open>one tenant installed, and on file\<close>
  "example_app =
     \<lparr>installed_tenants = [KStr ''acme'' \<mapsto> example_tenant],
      tenants_file = Some [KStr ''acme'' \<mapsto> example_tenant],
      write_error = None\<rparr>"

definition example_decode :: "string \<Rightarrow> py_exn + (string \<times> json) list" where
  \<comment> \<open>the claims of two example tokens\<close>
  "example_decode token =
     (if token = ''token-of-acme'' then Inr [(''iss'', JStr ''acme''), (''exp'', JInt 1700003600)]
      else if token = ''token-of-other'' then Inr [(''iss'', JStr ''other'')]
      else if token = ''token-of-list'' then Inr [(''iss'', JArr [JStr ''other''])]
      else Inl (PyExn InvalidTokenError ''Not enough segments''))"

text \<open>
  The number of places of a text at which a given string occurs.
\<close>

fun occurrences :: "string \<Rightarrow> string \<Rightarrow> nat" where
  "occurrences needle [] = (if needle = [] then 1 else 0)"
| "occurrences needle (c # cs) = (if prefix needle (c # cs) then 1 else 0) + occurrences needle cs"

section \<open>Properties of the extraction\<close>

lemma eq_char_of_iff: "(c = char_of (n::nat)) = (take_bit 8 n = of_char c)"
  using char_of_eq_iff[of n c] by auto

lemmas eval_strings =
  has_marker_def upper_def upper_char_def is_lower_def is_upper_def isupper_def strip_def
  is_space_def sublist_code prefix_code is_section_header_def after_header_def split1_def
  extract_description_from_output_def Let_def

lemma latin1_examples:
  "is_section_header [CHR 0xC0, CHR '':'']"
  "strip ([CHR 0xA0] @ ''Foo'' @ [CHR 0x85]) = ''Foo''"
  "\<not> is_section_header ([CHR ''R'', CHR 0xE9, CHR ''S'', CHR ''U'', CHR ''M'', CHR 0xE9, CHR '':''])"
  "upper [CHR 0xDF, CHR 0xE0, CHR 0xFF, CHR 0xB5, CHR ''a''] = [83, 83, 192, 376, 924, 65]"
  "extract_description_from_output
     (''ENHANCED DESCRIPTION:\<newline>Foo\<newline>'' @ [CHR 0xC0, CHR '':''] @ ''\<newline>Bar'') = ''Foo''"
  "extract_description_from_output
     (''ENHANCED DESCRIPTION:'' @ [CHR 0xA0] @ ''Foo'' @ [CHR 0xA0]) = ''Foo''"
  "scan_lines True [''Foo''] [''ENHANCED DESCRIPTION:'' @ [CHR 0xA0]] = [''Foo'']"
  by (simp_all add: eval_strings)

lemma scan_lines_no_marker:
  "\<forall>l\<in>set ls. \<not> has_marker l \<Longrightarrow> scan_lines False acc ls = acc"
  by (induction ls) simp_all

lemma scan_lines_skip:
  "\<forall>l\<in>set pre. \<not> has_marker l \<Longrightarrow> scan_lines False acc (pre @ ls) = scan_lines False acc ls"
  by (induction pre) simp_all

lemma upper_char_colon: "58 \<in> set (upper_char c) \<Longrightarrow> c = CHR '':''"
proof -
  assume a: "58 \<in> set (upper_char c)"
  then have "(of_char c :: nat) = 58"
    by (auto simp: upper_char_def Let_def split: if_splits)
  then have "char_of (of_char c :: nat) = (char_of (58 :: nat) :: char)" by simp
  then show ?thesis by (simp add: char_of_eq_iff)
qed

lemma has_marker_colon: "has_marker line \<Longrightarrow> CHR '':'' \<in> set line"
proof -
  assume "has_marker line"
  then have "set (map of_char ''ENHANCED DESCRIPTION:'') \<subseteq> set (upper line)"
    unfolding has_marker_def by (rule set_mono_sublist)
  then have "(58::nat) \<in> set (upper line)" by simp
  then obtain c where "c \<in> set line" "58 \<in> set (upper_char c)"
    unfolding upper_def by auto
  then show ?thesis using upper_char_colon by blast
qed

lemma split_first:
  "sep \<in> set s \<Longrightarrow> s = takeWhile (\<lambda>c. c \<noteq> sep) s @ sep # tl (dropWhile (\<lambda>c. c \<noteq> sep) s)"
  by (induction s) auto

lemma length_strip: "length (strip s) \<le> length s"
  unfolding strip_def
  by (metis length_dropWhile_le length_rev le_trans)

lemma after_header_marker:
  "has_marker l \<Longrightarrow>
   after_header l = (if strip (tl (dropWhile (\<lambda>c. c \<noteq> CHR '':'') l)) = [] then []
                     else [strip (tl (dropWhile (\<lambda>c. c \<noteq> CHR '':'') l))])"
  using has_marker_colon[of l] by (simp add: after_header_def split1_def)

lemma scan_lines_accumulate:
  "\<forall>l\<in>set body. has_marker l \<or> \<not> is_section_header l \<Longrightarrow>
   scan_lines True acc (body @ ls)
     = scan_lines True (acc @ concat (map (\<lambda>l. if has_marker l then after_header l else [l]) body)) ls"
  by (induction body arbitrary: acc) auto

lemma scan_lines_from_marker:
  assumes "\<forall>l\<in>set pre. \<not> has_marker l" and "has_marker m"
    and "\<forall>l\<in>set body. has_marker l \<or> \<not> is_section_header l"
  shows "scan_lines False [] (pre @ m # body @ ls)
     = scan_lines True (concat (map (\<lambda>l. if has_marker l then after_header l else [l]) (m # body))) ls"
  using assms scan_lines_accumulate[of body "after_header m" ls]
  by (simp add: scan_lines_skip)


lemma kept_lines:
  "concat (map (\<lambda>l. if has_marker l then after_header l else [l]) ls)
     = concat (map (\<lambda>l. if has_marker l
                          then (if strip (tl (dropWhile (\<lambda>c. c \<noteq> CHR '':'') l)) = [] then []
                                else [strip (tl (dropWhile (\<lambda>c. c \<noteq> CHR '':'') l))])
                          else [l]) ls)"
  by (induction ls) (simp_all add: after_header_marker)

lemma first_colon:
  "CHR '':'' \<notin> set before \<Longrightarrow>
   tl (dropWhile (\<lambda>c. c \<noteq> CHR '':'') (before @ CHR '':'' # after)) = after"
  by (induction before) auto

text \<open>
  Claim C8. When no line of the text contains the marker \<open>ENHANCED DESCRIPTION:\<close> in its
  upper-cased form, the extraction returns the empty string, and it returns it as a
  value: called on that text, the function does not raise.
\<close>

theorem extract_without_marker_is_empty:
  "\<forall>line\<in>set (split (CHR ''\<newline>'') text). \<not> has_marker line \<Longrightarrow>
   extract_description_from_output text = [] \<and> extract_description (JStr text) = Inr []"
  by (simp add: extract_description_from_output_def extract_description_def
      scan_lines_no_marker strip_def)

theorem extract_without_marker_is_empty_witness:
  "split (CHR ''\<newline>'') ''Hello\<newline>world'' = [''Hello'', ''world''] \<and>
   \<not> has_marker ''Hello'' \<and> \<not> has_marker ''world'' \<and>
   extract_description_from_output ''Hello\<newline>world'' = [] \<and>
   extract_description (JStr ''Hello\<newline>world'') = Inr []"
proof -
  have h: "\<forall>line\<in>set (split (CHR ''\<newline>'') ''Hello\<newline>world''). \<not> has_marker line"
    by (simp add: eval_strings)
  from extract_without_marker_is_empty[OF h] show ?thesis
    by (simp add: eval_strings)
qed

text \<open>
  Claim C3, as amended. The lines before the first marker line are skipped. From the
  marker line on, a line that contains the marker gives the stripped text after its
  first colon, if any; every other line is appended verbatim, unless it is a section
  header (stripped form upper-case, a colon in the line, stripped form shorter than 50).
  The first section header without the marker ends the scan: it is dropped and no later
  line is read. The result is the accumulated lines joined by newlines and stripped. In
  particular the four lines \<open>ENHANCED DESCRIPTION:\<close>, \<open>Foo\<close>, \<open>NEXT SECTION:\<close>, \<open>Bar\<close>
  yield \<open>Foo\<close>.
\<close>

theorem extract_accumulates_until_header:
  fixes kept :: "string \<Rightarrow> string list"
  defines "kept \<equiv> \<lambda>l. if has_marker l
                          then (if strip (tl (dropWhile (\<lambda>c. c \<noteq> CHR '':'') l)) = [] then []
                                else [strip (tl (dropWhile (\<lambda>c. c \<noteq> CHR '':'') l))])
                          else [l]"
  assumes "\<forall>l\<in>set pre. \<not> has_marker l" and "has_marker m"
    and "\<forall>l\<in>set body. has_marker l \<or> \<not> is_section_header l"
    and "\<not> has_marker h" and "is_section_header h"
  shows "(split (CHR ''\<newline>'') text = pre @ m # body @ h # rest \<or>
          split (CHR ''\<newline>'') text = pre @ m # body
            \<longrightarrow> scan_lines False [] (split (CHR ''\<newline>'') text) = concat (map kept (m # body)) \<and>
                extract_description_from_output text
                  = strip (join ''\<newline>'' (concat (map kept (m # body))))) \<and>
         extract_description_from_output
           ''ENHANCED DESCRIPTION:\<newline>Foo\<newline>NEXT SECTION:\<newline>Bar'' = ''Foo''"
proof -
  have a: "scan_lines False [] (pre @ m # body @ h # rest) = concat (map kept (m # body))"
    using scan_lines_from_marker[OF assms(2,3,4), of "h # rest"] assms(5,6)
    unfolding kept_def kept_lines[symmetric] by simp
  have b: "scan_lines False [] (pre @ m # body) = concat (map kept (m # body))"
    using scan_lines_from_marker[OF assms(2,3,4), of "[]"]
    unfolding kept_def kept_lines[symmetric] by simp
  have c: "extract_description_from_output
           ''ENHANCED DESCRIPTION:\<newline>Foo\<newline>NEXT SECTION:\<newline>Bar'' = ''Foo''"
    by (simp add: eval_strings)
  from a b c show ?thesis by (auto simp: extract_description_from_output_def)
qed

theorem extract_accumulates_until_header_witness:
  "\<not> has_marker ''intro'' \<and> has_marker ''Enhanced Description: First'' \<and>
   \<not> is_section_header ''second line'' \<and> has_marker ''enhanced description: again'' \<and>
   \<not> is_section_header ''third'' \<and> \<not> has_marker ''NOTES:'' \<and> is_section_header ''NOTES:'' \<and>
   scan_lines False [] (split (CHR ''\<newline>'')
     ''intro\<newline>Enhanced Description: First\<newline>second line\<newline>enhanced description: again\<newline>third\<newline>NOTES:\<newline>ignored'')
     = [''First'', ''second line'', ''again'', ''third''] \<and>
   extract_description_from_output
     ''intro\<newline>Enhanced Description: First\<newline>second line\<newline>enhanced description: again\<newline>third\<newline>NOTES:\<newline>ignored''
     = ''First\<newline>second line\<newline>again\<newline>third''"
proof -
  let ?text = "''intro\<newline>Enhanced Description: First\<newline>second line\<newline>enhanced description: again\<newline>third\<newline>NOTES:\<newline>ignored''"
  have sp: "split (CHR ''\<newline>'') ?text
     = [''intro''] @ ''Enhanced Description: First''
       # [''second line'', ''enhanced description: again'', ''third''] @ ''NOTES:'' # [''ignored'']"
    by simp
  have h: "\<forall>l\<in>set [''intro'']. \<not> has_marker l" "has_marker ''Enhanced Description: First''"
    "\<forall>l\<in>set [''second line'', ''enhanced description: again'', ''third''].
       has_marker l \<or> \<not> is_section_header l"
    "\<not> has_marker ''NOTES:''" "is_section_header ''NOTES:''"
    by (simp_all add: eval_strings)
  have f: "\<not> has_marker ''intro''" "\<not> is_section_header ''second line''"
    "has_marker ''enhanced description: again''" "\<not> is_section_header ''third''"
    by (simp_all add: eval_strings)
  have k: "concat (map (\<lambda>l. if has_marker l
                          then (if strip (tl (dropWhile (\<lambda>c. c \<noteq> CHR '':'') l)) = [] then []
                                else [strip (tl (dropWhile (\<lambda>c. c \<noteq> CHR '':'') l))])
                          else [l])
       (''Enhanced Description: First''
        # [''second line'', ''enhanced description: again'', ''third'']))
     = [''First'', ''second line'', ''again'', ''third'']"
    by (simp add: eval_strings)
  from extract_accumulates_until_header[OF h, of ?text "[''ignored'']"] sp
  have "scan_lines False [] (split (CHR ''\<newline>'') ?text)
          = [''First'', ''second line'', ''again'', ''third''] \<and>
        extract_description_from_output ?text
          = strip (join ''\<newline>'' [''First'', ''second line'', ''again'', ''third''])"
    unfolding k by blast
  then have "scan_lines False [] (split (CHR ''\<newline>'') ?text)
          = [''First'', ''second line'', ''again'', ''third''] \<and>
        extract_description_from_output ?text = ''First\<newline>second line\<newline>again\<newline>third''"
    by (simp add: strip_def is_space_def Let_def)
  with h(2,4,5) f show ?thesis by blast
qed

text \<open>
  Claim C3 as it is stated fails on a later line that contains the marker. Such a line
  is a section header by the rule of the claim, yet the scan goes on and appends the
  line after it; and a marker line that is no section header is not appended verbatim.
\<close>

theorem extract_later_marker_counterexample:
  "is_section_header ''ENHANCED DESCRIPTION:'' \<and>
   extract_description_from_output
     ''ENHANCED DESCRIPTION:\<newline>Foo\<newline>ENHANCED DESCRIPTION:\<newline>Bar'' = ''Foo\<newline>Bar'' \<and>
   \<not> is_section_header ''Enhanced description: x'' \<and>
   extract_description_from_output
     ''ENHANCED DESCRIPTION:\<newline>Foo\<newline>Enhanced description: x'' = ''Foo\<newline>x''"
  by (simp add: eval_strings)

text \<open>
  Claim C9. Take a text with a first marker line and, later, a line whose upper-cased
  form contains the marker, with no section header without the marker among the other
  lines. The later line has a first colon, and what the scan accumulates is: what the
  lines before it give, then the stripped text after that colon if it is not empty, then
  what the lines after it give. The line itself is not what is appended, and the scan
  goes on after it, also when the line is a section header.
\<close>

theorem marker_branch_on_every_line:
  fixes kept :: "string \<Rightarrow> string list"
  defines "kept \<equiv> \<lambda>l. if has_marker l
                          then (if strip (tl (dropWhile (\<lambda>c. c \<noteq> CHR '':'') l)) = [] then []
                                else [strip (tl (dropWhile (\<lambda>c. c \<noteq> CHR '':'') l))])
                          else [l]"
  assumes "\<forall>l\<in>set pre. \<not> has_marker l" and "has_marker m"
    and "\<forall>l\<in>set body. has_marker l \<or> \<not> is_section_header l"
    and "has_marker line"
    and "\<forall>l\<in>set later. has_marker l \<or> \<not> is_section_header l"
    and "split (CHR ''\<newline>'') text = pre @ m # body @ line # later"
  shows "\<exists>before after.
           line = before @ CHR '':'' # after \<and> CHR '':'' \<notin> set before \<and>
           strip after \<noteq> line \<and>
           scan_lines False [] (split (CHR ''\<newline>'') text)
             = concat (map kept (m # body))
               @ (if strip after = [] then [] else [strip after])
               @ concat (map kept later) \<and>
           extract_description_from_output text
             = strip (join ''\<newline>''
                 (concat (map kept (m # body))
                  @ (if strip after = [] then [] else [strip after])
                  @ concat (map kept later)))"
proof -
  let ?b = "takeWhile (\<lambda>c. c \<noteq> CHR '':'') line"
  let ?a = "tl (dropWhile (\<lambda>c. c \<noteq> CHR '':'') line)"
  have colon: "CHR '':'' \<in> set line" using assms(5) by (rule has_marker_colon)
  then have eq: "line = ?b @ CHR '':'' # ?a" by (rule split_first)
  have nb: "CHR '':'' \<notin> set ?b" by (auto dest: set_takeWhileD)
  have "length (strip ?a) \<le> length ?a" by (rule length_strip)
  also have "length ?a < length line" by (subst (2) eq) simp
  finally have ne: "strip ?a \<noteq> line" by auto
  have all: "\<forall>l\<in>set (body @ line # later). has_marker l \<or> \<not> is_section_header l"
    using assms(4,5,6) by auto
  have "scan_lines False [] (pre @ m # (body @ line # later) @ [])
          = concat (map kept (m # body @ line # later))"
    using scan_lines_from_marker[OF assms(2,3) all, of "[]"]
    unfolding kept_def kept_lines[symmetric] by simp
  then have sc: "scan_lines False [] (split (CHR ''\<newline>'') text)
      = concat (map kept (m # body)) @ (if strip ?a = [] then [] else [strip ?a])
        @ concat (map kept later)"
    using assms(5,7) by (simp add: kept_def)
  then have ex: "extract_description_from_output text
      = strip (join ''\<newline>'' (concat (map kept (m # body))
          @ (if strip ?a = [] then [] else [strip ?a]) @ concat (map kept later)))"
    by (simp add: extract_description_from_output_def)
  from eq nb ne sc ex show ?thesis by blast
qed

theorem marker_branch_on_every_line_witness:
  "is_section_header ''ENHANCED DESCRIPTION: MORE'' \<and>
   has_marker ''ENHANCED DESCRIPTION: MORE'' \<and>
   scan_lines False []
     (split (CHR ''\<newline>'') ''intro\<newline>Enhanced Description: First\<newline>second\<newline>ENHANCED DESCRIPTION: MORE\<newline>Bar'')
     = [''First'', ''second'', ''MORE'', ''Bar''] \<and>
   extract_description_from_output
     ''intro\<newline>Enhanced Description: First\<newline>second\<newline>ENHANCED DESCRIPTION: MORE\<newline>Bar''
     = ''First\<newline>second\<newline>MORE\<newline>Bar''"
proof -
  let ?text = "''intro\<newline>Enhanced Description: First\<newline>second\<newline>ENHANCED DESCRIPTION: MORE\<newline>Bar''"
  let ?kept = "\<lambda>l. if has_marker l
                 then (if strip (tl (dropWhile (\<lambda>c. c \<noteq> CHR '':'') l)) = [] then []
                       else [strip (tl (dropWhile (\<lambda>c. c \<noteq> CHR '':'') l))])
                 else [l]"
  have sp: "split (CHR ''\<newline>'') ?text
     = [''intro''] @ ''Enhanced Description: First'' # [''second'']
       @ ''ENHANCED DESCRIPTION: MORE'' # [''Bar'']"
    by simp
  have h: "\<forall>l\<in>set [''intro'']. \<not> has_marker l" "has_marker ''Enhanced Description: First''"
    "\<forall>l\<in>set [''second'']. has_marker l \<or> \<not> is_section_header l"
    "has_marker ''ENHANCED DESCRIPTION: MORE''"
    "\<forall>l\<in>set [''Bar'']. has_marker l \<or> \<not> is_section_header l"
    by (simp_all add: eval_strings)
  have hd: "is_section_header ''ENHANCED DESCRIPTION: MORE''"
    by (simp add: eval_strings)
  have k: "concat (map ?kept (''Enhanced Description: First'' # [''second''])) = [''First'', ''second'']"
    "concat (map ?kept [''Bar'']) = [''Bar'']"
    by (simp_all add: eval_strings)
  obtain before after where
    d: "''ENHANCED DESCRIPTION: MORE'' = before @ CHR '':'' # after" "CHR '':'' \<notin> set before"
    and r: "scan_lines False [] (split (CHR ''\<newline>'') ?text)
        = concat (map ?kept (''Enhanced Description: First'' # [''second'']))
          @ (if strip after = [] then [] else [strip after])
          @ concat (map ?kept [''Bar''])"
      "extract_description_from_output ?text
        = strip (join ''\<newline>''
            (concat (map ?kept (''Enhanced Description: First'' # [''second'']))
             @ (if strip after = [] then [] else [strip after])
             @ concat (map ?kept [''Bar''])))"
    using marker_branch_on_every_line[OF h sp] by blast
  have "after = tl (dropWhile (\<lambda>c. c \<noteq> CHR '':'') ''ENHANCED DESCRIPTION: MORE'')"
    by (subst d(1)) (simp only: first_colon[OF d(2)])
  then have sa: "strip after = ''MORE''"
    by (simp add: strip_def is_space_def Let_def)
  have j: "strip (join ''\<newline>'' [''First'', ''second'', ''MORE'', ''Bar''])
      = ''First\<newline>second\<newline>MORE\<newline>Bar''"
    by (simp add: strip_def is_space_def Let_def)
  from r have "scan_lines False [] (split (CHR ''\<newline>'') ?text)
        = [''First'', ''second'', ''MORE'', ''Bar''] \<and>
      extract_description_from_output ?text
        = strip (join ''\<newline>'' [''First'', ''second'', ''MORE'', ''Bar''])"
    unfolding k sa by simp
  with j hd h(4) show ?thesis by simp
qed

section \<open>Properties of the enhancer\<close>

text \<open>
  Claim C7. The generation call sends one request: the log of requests grows by exactly
  one entry, to \<open>/api/generate\<close> of the configured host, whose body has \<open>stream\<close> false
  and the options \<open>temperature\<close> 0.1, \<open>top_p\<close> 0.9 and \<open>num_ctx\<close> 4096, with timeout 60.
  When \<open>raise_for_status\<close> raises on the response the call fails with that exception,
  and \<open>enhance_ticket\<close> then returns a result with \<open>success\<close> false and the text of the
  exception as \<open>error\<close>. When it does not raise and the body decodes to an object, the
  call returns the \<open>response\<close> entry of the object, and the empty string when the object
  has no such entry.
\<close>

theorem generation_call_contract:
  fixes self :: llama_jira_enhancer and w :: world and p :: string
  defines "request \<equiv>
     \<lparr>url = base_url self @ ''/api/generate'',
      json_payload =
        \<lparr>model = model_name self, prompt = p, stream = False,
         options = \<lparr>temperature = 1 / 10, top_p = 9 / 10, num_ctx = 4096\<rparr>\<rparr>,
      timeout = 60\<rparr>"
  shows "posts (snd (call_model self w p)) = posts w @ [request] \<and>
         (requests_post w request = Inr response \<and> raise_for_status response = Some e \<longrightarrow>
            fst (call_model self w p) = Inl e \<and>
            (p = build_prompt self i custom_instructions \<longrightarrow>
               success (fst (enhance_ticket self w i custom_instructions)) = False \<and>
               error (fst (enhance_ticket self w i custom_instructions)) = Some (exn_str e))) \<and>
         (requests_post w request = Inr response \<and> raise_for_status response = None \<and>
          response_json response = Inr (JObj entries) \<longrightarrow>
            fst (call_model self w p)
              = Inr (case map_of entries ''response'' of None \<Rightarrow> JStr [] | Some text \<Rightarrow> text))"
  unfolding request_def
  by (auto simp: call_model_def enhance_ticket_def Let_def json_get_def failed_def
      split: sum.splits option.splits prod.splits)

lemmas eval_world = example_world_def answer_def answer_without_text_def internal_error_def
  server_error_def not_found_def

lemma default_enhancer:
  "base_url (llama_enhancer JiraIssueEnhancer) = ''http://localhost:11434''"
  "model_name (llama_enhancer JiraIssueEnhancer) = ''llama3:8b''"
  "policy_rules (llama_enhancer JiraIssueEnhancer) = load_default_policy"
  by (simp_all add: JiraIssueEnhancer_def LlamaJiraEnhancer_def str_int_def
      char_of_eq_iff eq_char_of_iff)

lemma call_model_internal_error:
  "call_model self (example_world internal_error wr) p
     = (Inl server_error, (example_world internal_error wr)\<lparr>posts :=
          [\<lparr>url = base_url self @ ''/api/generate'',
            json_payload = \<lparr>model = model_name self, prompt = p, stream = False,
              options = \<lparr>temperature = 1 / 10, top_p = 9 / 10, num_ctx = 4096\<rparr>\<rparr>,
            timeout = 60\<rparr>]\<rparr>)"
  by (simp add: call_model_def example_world_def internal_error_def)

lemma example_world_fields:
  "posts (example_world response wr) = []"
  "updates (example_world response wr) = []"
  "jira_update_issue (example_world response wr) = (\<lambda>k d. wr)"
  "time_time (example_world response wr) = 0"
  by (simp_all add: example_world_def)

lemma resolve_examples:
  "resolve (example_world response wr) (Key ''DIGI-894'') = Inr example_issue"
  "resolve (example_world response wr) (Key ''DIGI-895'') = Inr undescribed_issue"
  "resolve (example_world response wr) (Key ''DIGI-1'') = Inl not_found"
  by (simp_all add: resolve_def get_issue_def example_world_def)

lemma to_string_examples:
  "\<exists>printed. to_string_issue example_issue = Inr printed"
  "to_string_issue undescribed_issue
     = Inl (PyExn TypeError (''object of type '' @ quoted ''NoneType'' @ '' has no len()''))"
  by (simp_all add: to_string_issue_def example_issue_def undescribed_issue_def
      example_fields_def Let_def)

lemma enhance_ticket_internal_error:
  "enhance_ticket self (example_world internal_error wr) i c
     = (failed (example_world internal_error wr) i server_error,
        snd (call_model self (example_world internal_error wr) (build_prompt self i c)))"
  by (simp add: enhance_ticket_def call_model_internal_error failed_def)

lemma enhance_ticket_answer:
  "fst (enhance_ticket self (example_world answer wr) i c)
     = \<lparr>success = True, enhanced_description = Some ''Login fails on Safari 17.'',
        full_response = Some (JStr ''ENHANCED DESCRIPTION:\<newline>Login fails on Safari 17.''),
        error = None, original_issue = i, timestamp = 0\<rparr>"
proof -
  have "extract_description_from_output ''ENHANCED DESCRIPTION:\<newline>Login fails on Safari 17.''
    = ''Login fails on Safari 17.''"
    by (simp add: eval_strings)
  then show ?thesis
  by (simp add: enhance_ticket_def call_model_def example_world_def answer_def json_get_def
      extract_description_def Let_def)
qed

theorem generation_call_contract_witness:
  "fst (call_model (llama_enhancer JiraIssueEnhancer) (example_world internal_error None)
          (build_prompt (llama_enhancer JiraIssueEnhancer) example_issue [])) = Inl server_error \<and>
   success (fst (enhance_ticket (llama_enhancer JiraIssueEnhancer)
                   (example_world internal_error None) example_issue [])) = False \<and>
   error (fst (enhance_ticket (llama_enhancer JiraIssueEnhancer)
                 (example_world internal_error None) example_issue []))
     = Some ''500 Server Error: Internal Server Error for url: http://localhost:11434/api/generate'' \<and>
   fst (call_model (llama_enhancer JiraIssueEnhancer) (example_world answer_without_text None) ''Hello'')
     = Inr (JStr []) \<and>
   posts (snd (call_model (llama_enhancer JiraIssueEnhancer) (example_world answer_without_text None) ''Hello''))
     = [\<lparr>url = ''http://localhost:11434/api/generate'',
         json_payload = \<lparr>model = ''llama3:8b'', prompt = ''Hello'', stream = False,
           options = \<lparr>temperature = 1 / 10, top_p = 9 / 10, num_ctx = 4096\<rparr>\<rparr>,
         timeout = 60\<rparr>]"
  using generation_call_contract[of "llama_enhancer JiraIssueEnhancer" "example_world internal_error None"
        "build_prompt (llama_enhancer JiraIssueEnhancer) example_issue []"
        internal_error server_error example_issue "[]" "[]"]
    generation_call_contract[of "llama_enhancer JiraIssueEnhancer" "example_world answer_without_text None" "''Hello''"
        answer_without_text server_error example_issue "[]" "[(''done'', JBool True)]"]
  by (simp add: eval_world default_enhancer)

text \<open>
  Claim C1, as amended. For a ticket given as a snapshot, and for a ticket key that the
  tracker resolves, \<open>enhance_issue_description\<close> returns a result and does not raise:
  an exception of the generation call or of the extraction is captured as \<open>success\<close>
  false with the text of the exception as \<open>error\<close>, and otherwise the result has
  \<open>success\<close> true and the extracted description. When the tracker fails to resolve
  the key, that exception is raised to the caller.
\<close>

theorem preview_captures_generation_failures:
  "(resolve w ref = Inr i \<longrightarrow>
      (\<exists>r w'. enhance_issue_description self w ref c = (Inr r, w') \<and>
         r = fst (enhance_ticket (llama_enhancer self) w i c) \<and>
         (\<forall>e. fst (call_model (llama_enhancer self) w (build_prompt (llama_enhancer self) i c)) = Inl e
            \<longrightarrow> \<not> success r \<and> error r = Some (exn_str e)) \<and>
         (\<forall>v e. fst (call_model (llama_enhancer self) w (build_prompt (llama_enhancer self) i c)) = Inr v
                 \<and> extract_description v = Inl e
            \<longrightarrow> \<not> success r \<and> error r = Some (exn_str e)) \<and>
         (\<forall>v d. fst (call_model (llama_enhancer self) w (build_prompt (llama_enhancer self) i c)) = Inr v
                 \<and> extract_description v = Inr d
            \<longrightarrow> success r \<and> enhanced_description r = Some d \<and> error r = None))) \<and>
   (resolve w ref = Inl e \<longrightarrow> enhance_issue_description self w ref c = (Inl e, w))"
  by (auto simp: enhance_issue_description_def enhance_ticket_def Let_def failed_def
      split: sum.splits prod.splits)

text \<open>
  Claim C1 as it is stated fails when the lookup of the ticket key fails: the lookup is
  made outside the \<open>try\<close> block, and its exception reaches the caller.
\<close>

theorem preview_lookup_failure_counterexample:
  "enhance_issue_description JiraIssueEnhancer (example_world answer None) (Key ''DIGI-1'') []
     = (Inl not_found, example_world answer None)"
  by (simp add: enhance_issue_description_def resolve_def get_issue_def example_world_def)

theorem preview_captures_generation_failures_witness:
  "resolve (example_world internal_error None) (Key ''DIGI-894'') = Inr example_issue \<and>
   (\<exists>r w'. enhance_issue_description JiraIssueEnhancer (example_world internal_error None)
              (Key ''DIGI-894'') [] = (Inr r, w') \<and>
            \<not> success r \<and> error r = Some (exn_str server_error)) \<and>
   (\<exists>r w'. enhance_issue_description JiraIssueEnhancer (example_world answer None)
              (Issue example_issue) [] = (Inr r, w') \<and>
            success r \<and> enhanced_description r = Some ''Login fails on Safari 17.'') \<and>
   resolve (example_world internal_error None) (Key ''DIGI-1'') = Inl not_found \<and>
   enhance_issue_description JiraIssueEnhancer (example_world internal_error None) (Key ''DIGI-1'') []
     = (Inl not_found, example_world internal_error None)"
proof -
  note a = resolve_examples(1)[of internal_error None]
  note b = resolve_examples(3)[of internal_error None]
  from a preview_captures_generation_failures[of "example_world internal_error None"
      "Key ''DIGI-894''" example_issue JiraIssueEnhancer "[]" not_found]
  have c: "\<exists>r w'. enhance_issue_description JiraIssueEnhancer (example_world internal_error None)
              (Key ''DIGI-894'') [] = (Inr r, w') \<and>
            \<not> success r \<and> error r = Some (exn_str server_error)"
    by (auto simp: call_model_internal_error)
  from preview_captures_generation_failures[of "example_world answer None"
      "Issue example_issue" example_issue JiraIssueEnhancer "[]" not_found]
  have s: "\<exists>r w'. enhance_issue_description JiraIssueEnhancer (example_world answer None)
              (Issue example_issue) [] = (Inr r, w') \<and>
            success r \<and> enhanced_description r = Some ''Login fails on Safari 17.''"
    by (auto simp: resolve_def enhance_ticket_answer)
  from b preview_captures_generation_failures[of "example_world internal_error None"
      "Key ''DIGI-1''" example_issue JiraIssueEnhancer "[]" not_found]
  have d: "enhance_issue_description JiraIssueEnhancer (example_world internal_error None)
      (Key ''DIGI-1'') [] = (Inl not_found, example_world internal_error None)"
    by simp
  from a b c s d show ?thesis by blast
qed

lemma call_model_snd:
  "snd (call_model self w p) = w\<lparr>posts := posts w @
     [\<lparr>url = base_url self @ ''/api/generate'',
       json_payload = \<lparr>model = model_name self, prompt = p, stream = False,
         options = \<lparr>temperature = 1 / 10, top_p = 9 / 10, num_ctx = 4096\<rparr>\<rparr>,
       timeout = 60\<rparr>]\<rparr>"
  by (simp add: call_model_def Let_def split: sum.splits option.splits)

lemma enhance_ticket_snd:
  "snd (enhance_ticket self w i c) = snd (call_model self w (build_prompt self i c))"
  by (simp add: enhance_ticket_def split: sum.splits prod.splits)

lemma enhance_ticket_world:
  "updates (snd (enhance_ticket self w i c)) = updates w"
  "jira_update_issue (snd (enhance_ticket self w i c)) = jira_update_issue w"
  by (simp_all add: enhance_ticket_snd call_model_snd)

lemma enhance_ticket_keys:
  "enhance_ticket self w i c = (r, w1) \<Longrightarrow>
   (success r \<longrightarrow> (\<exists>d. enhanced_description r = Some d)) \<and>
   (\<not> success r \<longrightarrow> (\<exists>err. error r = Some err))"
  by (auto simp: enhance_ticket_def failed_def split: sum.splits prod.splits)

lemma apply_after_preview:
  assumes "resolve w ref = Inr i" and "to_string_issue i = Inr printed"
    and "enhance_ticket (llama_enhancer self) w i c = (r, w1)"
  shows "enhance_and_update_issue self w ref c =
     (if \<not> success r
      then (case error r of
              None \<Rightarrow> (Inl (PyExn KeyError (quoted ''error'')), w1)
            | Some err \<Rightarrow>
                (Inr (False, enhancement_failed_message
                        (case ref of Key k \<Rightarrow> k | Issue j \<Rightarrow> key j) err), w1))
      else (case enhanced_description r of
              None \<Rightarrow> (Inl (PyExn KeyError (quoted ''enhanced_description'')), w1)
            | Some d \<Rightarrow>
                (Inr (fst (issue_update w1 (key i) d)), snd (issue_update w1 (key i) d))))"
  using assms
  by (simp add: enhance_and_update_issue_def enhance_issue_description_def to_string_def
      update_issue_description_def subscript_def resolve_def[of _ "Issue i"] Let_def
      split: option.splits prod.splits)

lemma apply_raises_without_write:
  "resolve w ref = Inl e \<Longrightarrow> enhance_and_update_issue self w ref c = (Inl e, w)"
  "resolve w ref = Inr i \<Longrightarrow> to_string_issue i = Inl e \<Longrightarrow>
     enhance_and_update_issue self w ref c = (Inl e, w)"
  by (simp_all add: enhance_and_update_issue_def to_string_def resolve_def[of _ "Issue i"])

text \<open>
  Claim C5, as amended. When the ticket reference resolves and printing the ticket
  completes, \<open>enhance_and_update_issue\<close> runs the preview on the ticket. If the preview
  reports \<open>success\<close> false, it returns false with the message that carries the key and
  the error of the preview, and the tracker's write is not called. If the preview
  succeeds, the write is called once, with the key of the ticket and the enhanced
  description, and what is returned tells whether the write succeeded. In every case,
  also when \<open>enhance_and_update_issue\<close> raises, the write is called only after a
  successful preview.
\<close>

theorem apply_writes_after_successful_preview:
  "(resolve w ref = Inr i \<and> to_string_issue i = Inr printed \<and>
    enhance_ticket (llama_enhancer self) w i c = (r, w1) \<longrightarrow>
      (\<not> success r \<longrightarrow>
         (\<exists>err. error r = Some err \<and>
            enhance_and_update_issue self w ref c
              = (Inr (False, enhancement_failed_message
                        (case ref of Key k \<Rightarrow> k | Issue j \<Rightarrow> key j) err), w1)) \<and>
         updates w1 = updates w) \<and>
      (success r \<longrightarrow>
         (\<exists>d. enhanced_description r = Some d \<and>
            (jira_update_issue w1 (key i) d = None \<longrightarrow>
               enhance_and_update_issue self w ref c
                 = (Inr (True, updated_message (key i)),
                    w1\<lparr>updates := updates w @ [(key i, d)]\<rparr>)) \<and>
            (\<forall>e. jira_update_issue w1 (key i) d = Some e \<longrightarrow>
               enhance_and_update_issue self w ref c
                 = (Inr (False, update_failed_message (key i) e),
                    w1\<lparr>updates := updates w @ [(key i, d)]\<rparr>))))) \<and>
   (updates (snd (enhance_and_update_issue self w ref c)) \<noteq> updates w \<longrightarrow>
      (\<exists>j. resolve w ref = Inr j \<and> success (fst (enhance_ticket (llama_enhancer self) w j c))))"
proof -
  have first: "(\<not> success r \<longrightarrow>
         (\<exists>err. error r = Some err \<and>
            enhance_and_update_issue self w ref c
              = (Inr (False, enhancement_failed_message
                        (case ref of Key k \<Rightarrow> k | Issue j \<Rightarrow> key j) err), w1)) \<and>
         updates w1 = updates w) \<and>
      (success r \<longrightarrow>
         (\<exists>d. enhanced_description r = Some d \<and>
            (jira_update_issue w1 (key i) d = None \<longrightarrow>
               enhance_and_update_issue self w ref c
                 = (Inr (True, updated_message (key i)),
                    w1\<lparr>updates := updates w @ [(key i, d)]\<rparr>)) \<and>
            (\<forall>e. jira_update_issue w1 (key i) d = Some e \<longrightarrow>
               enhance_and_update_issue self w ref c
                 = (Inr (False, update_failed_message (key i) e),
                    w1\<lparr>updates := updates w @ [(key i, d)]\<rparr>))))"
    if h: "resolve w ref = Inr i" "to_string_issue i = Inr printed"
      "enhance_ticket (llama_enhancer self) w i c = (r, w1)"
  proof -
    have u: "updates w1 = updates w"
      using enhance_ticket_world(1)[of "llama_enhancer self" w i c] h(3) by simp
    note k = enhance_ticket_keys[OF h(3)]
    note a = apply_after_preview[OF h]
    show ?thesis
    proof (cases "success r")
      case False
      with k obtain err where "error r = Some err" by blast
      with False a u show ?thesis by simp
    next
      case True
      with k obtain d where "enhanced_description r = Some d" by blast
      with True a u show ?thesis by (simp add: issue_update_def Let_def)
    qed
  qed
  have second: "\<exists>j. resolve w ref = Inr j \<and> success (fst (enhance_ticket (llama_enhancer self) w j c))"
    if h: "updates (snd (enhance_and_update_issue self w ref c)) \<noteq> updates w"
  proof (cases "resolve w ref")
    case (Inl e)
    with h apply_raises_without_write(1)[OF Inl] show ?thesis by simp
  next
    case (Inr j)
    show ?thesis
    proof (cases "to_string_issue j")
      case (Inl e)
      with h apply_raises_without_write(2)[OF Inr Inl] show ?thesis by simp
    next
      case pr: (Inr printed)
      obtain r' w' where et: "enhance_ticket (llama_enhancer self) w j c = (r', w')"
        by (cases "enhance_ticket (llama_enhancer self) w j c")
      have u: "updates w' = updates w"
        using enhance_ticket_world(1)[of "llama_enhancer self" w j c] et by simp
      have "success r'"
      proof (rule ccontr)
        assume "\<not> success r'"
        with apply_after_preview[OF Inr pr et] u h show False
          by (simp split: option.splits)
      qed
      with Inr et show ?thesis by simp
    qed
  qed
  from first second show ?thesis by blast
qed

theorem apply_writes_after_successful_preview_witness:
  "enhance_and_update_issue JiraIssueEnhancer (example_world internal_error None) (Key ''DIGI-894'') []
     = (Inr (False, enhancement_failed_message ''DIGI-894'' (exn_str server_error)),
        snd (enhance_ticket (llama_enhancer JiraIssueEnhancer) (example_world internal_error None)
               example_issue [])) \<and>
   updates (snd (enhance_ticket (llama_enhancer JiraIssueEnhancer) (example_world internal_error None)
               example_issue [])) = [] \<and>
   fst (enhance_and_update_issue JiraIssueEnhancer (example_world answer None) (Key ''DIGI-894'') [])
     = Inr (True, updated_message ''DIGI-894'') \<and>
   updates (snd (enhance_and_update_issue JiraIssueEnhancer (example_world answer None)
                   (Key ''DIGI-894'') []))
     = [(''DIGI-894'', ''Login fails on Safari 17.'')] \<and>
   fst (enhance_and_update_issue JiraIssueEnhancer (example_world answer (Some forbidden))
          (Key ''DIGI-894'') [])
     = Inr (False, update_failed_message ''DIGI-894'' forbidden) \<and>
   updates (snd (enhance_and_update_issue JiraIssueEnhancer (example_world answer (Some forbidden))
                   (Key ''DIGI-894'') []))
     = [(''DIGI-894'', ''Login fails on Safari 17.'')]"
proof -
  let ?self = "llama_enhancer JiraIssueEnhancer"
  obtain printed where p: "to_string_issue example_issue = Inr printed"
    using to_string_examples(1) by blast
  obtain r w1 where e1: "enhance_ticket ?self (example_world internal_error None) example_issue []
      = (r, w1)"
    by (cases "enhance_ticket ?self (example_world internal_error None) example_issue []")
  then have r: "r = failed (example_world internal_error None) example_issue server_error"
    by (simp add: enhance_ticket_internal_error)
  have a: "enhance_and_update_issue JiraIssueEnhancer (example_world internal_error None)
      (Key ''DIGI-894'') []
     = (Inr (False, enhancement_failed_message ''DIGI-894'' (exn_str server_error)), w1) \<and>
     updates w1 = []"
    using apply_writes_after_successful_preview[where w = "example_world internal_error None"
        and ref = "Key ''DIGI-894''" and i = example_issue and printed = printed
        and self = JiraIssueEnhancer and c = "[]" and r = r and ?w1.0 = w1] p e1 r
    by (simp add: resolve_examples failed_def example_world_fields)
  have b: "enhance_and_update_issue JiraIssueEnhancer (example_world answer wr) (Key ''DIGI-894'') []
     = (Inr (case wr of None \<Rightarrow> (True, updated_message ''DIGI-894'')
             | Some e \<Rightarrow> (False, update_failed_message ''DIGI-894'' e)),
        (snd (enhance_ticket ?self (example_world answer wr) example_issue []))
          \<lparr>updates := [(''DIGI-894'', ''Login fails on Safari 17.'')]\<rparr>)" for wr
  proof -
    obtain r2 w2 where e2: "enhance_ticket ?self (example_world answer wr) example_issue []
        = (r2, w2)"
      by (cases "enhance_ticket ?self (example_world answer wr) example_issue []")
    then have r2: "success r2" "enhanced_description r2 = Some ''Login fails on Safari 17.''"
      using enhance_ticket_answer[where self = ?self and wr = wr and i = example_issue and c = "[]"]
      by simp_all
    have j: "jira_update_issue w2 k d = wr" for k d
      using enhance_ticket_world(2)[of ?self "example_world answer wr" example_issue "[]"] e2
      by (simp add: example_world_fields)
    show ?thesis
      using apply_writes_after_successful_preview[where w = "example_world answer wr"
          and ref = "Key ''DIGI-894''" and i = example_issue and printed = printed
          and self = JiraIssueEnhancer and c = "[]" and r = r2 and ?w1.0 = w2] p e2 r2 j
      by (cases wr) (simp_all add: resolve_examples example_world_fields example_issue_def)
  qed
  from a b[of None] b[of "Some forbidden"] e1 show ?thesis by simp
qed

text \<open>
  Claim C5 as it is stated fails where \<open>enhance_and_update_issue\<close> raises before the
  preview: for a key the tracker does not resolve; and for a ticket whose description is
  \<open>None\<close>, where printing the ticket raises although the preview of that ticket reports
  its failure as a result.
\<close>

theorem apply_raises_counterexample:
  "enhance_and_update_issue JiraIssueEnhancer (example_world internal_error None) (Key ''DIGI-1'') []
     = (Inl not_found, example_world internal_error None) \<and>
   fst (enhance_issue_description JiraIssueEnhancer (example_world internal_error None)
          (Key ''DIGI-895'') [])
     = Inr (failed (example_world internal_error None) undescribed_issue server_error) \<and>
   enhance_and_update_issue JiraIssueEnhancer (example_world internal_error None) (Key ''DIGI-895'') []
     = (Inl (PyExn TypeError (''object of type '' @ quoted ''NoneType'' @ '' has no len()'')),
        example_world internal_error None)"
  by (simp add: apply_raises_without_write resolve_examples to_string_examples
      enhance_issue_description_def enhance_ticket_internal_error)

section \<open>Properties of the prompt\<close>

lemma sublist_of_info:
  "sublist xs (issue_info i) \<Longrightarrow> sublist xs (build_prompt self i c)"
proof -
  assume "sublist xs (issue_info i)"
  then obtain ps ss where "issue_info i = ps @ xs @ ss"
    unfolding sublist_def by blast
  then have "build_prompt self i c
      = (policy_rules self @ ''\<newline>\<newline>'' @ ps) @ xs
        @ (ss @ ''\<newline>\<newline>'' @ c @ ''\<newline>\<newline>'' @ task_text)"
    by (simp add: build_prompt_def)
  then show ?thesis
    unfolding sublist_def by blast
qed

lemma info_part: "issue_info i = ps @ xs @ ss \<Longrightarrow> sublist xs (issue_info i)"
  by (metis sublist_appendI)

lemma info_line_1:
  "sublist (''\<newline>Key: '' @ key i @ ''\<newline>'') (issue_info i)"
  by (rule info_part[where ps = "''\<newline>CURRENT TICKET:''"
        and ss = "''Title: '' @ fmt_get (summary (fields_dict i)) ''No title'' @ ''\<newline>'' @ ''Description: '' @ fmt_get (description (fields_dict i)) ''No description'' @ ''\<newline>'' @ ''Priority: '' @ fmt_name (priority (fields_dict i)) ''Not set'' @ ''\<newline>'' @ ''Issue Type: '' @ fmt_name (issuetype (fields_dict i)) ''Not set'' @ ''\<newline>'' @ ''Assignee: '' @ fmt_name (assignee (fields_dict i)) ''Unassigned'' @ ''\<newline>'' @ ''Status: '' @ fmt_name (status (fields_dict i)) ''Unknown'' @ ''\<newline>'' @ ''Labels: '' @ fmt_list (labels (fields_dict i)) @ ''\<newline>'' @ ''Components: '' @ fmt_list (component_names (components (fields_dict i))) @ ''\<newline>''"])
    (simp add: issue_info_def Let_def)

lemma info_line_2:
  "sublist (''\<newline>Title: '' @ fmt_get (summary (fields_dict i)) ''No title'' @ ''\<newline>'') (issue_info i)"
  by (rule info_part[where ps = "''\<newline>CURRENT TICKET:'' @ ''\<newline>Key: '' @ key i"
        and ss = "''Description: '' @ fmt_get (description (fields_dict i)) ''No description'' @ ''\<newline>'' @ ''Priority: '' @ fmt_name (priority (fields_dict i)) ''Not set'' @ ''\<newline>'' @ ''Issue Type: '' @ fmt_name (issuetype (fields_dict i)) ''Not set'' @ ''\<newline>'' @ ''Assignee: '' @ fmt_name (assignee (fields_dict i)) ''Unassigned'' @ ''\<newline>'' @ ''Status: '' @ fmt_name (status (fields_dict i)) ''Unknown'' @ ''\<newline>'' @ ''Labels: '' @ fmt_list (labels (fields_dict i)) @ ''\<newline>'' @ ''Components: '' @ fmt_list (component_names (components (fields_dict i))) @ ''\<newline>''"])
    (simp add: issue_info_def Let_def)

lemma info_line_3:
  "sublist (''\<newline>Description: '' @ fmt_get (description (fields_dict i)) ''No description'' @ ''\<newline>'') (issue_info i)"
  by (rule info_part[where ps = "''\<newline>CURRENT TICKET:'' @ ''\<newline>Key: '' @ key i @ ''\<newline>Title: '' @ fmt_get (summary (fields_dict i)) ''No title''"
        and ss = "''Priority: '' @ fmt_name (priority (fields_dict i)) ''Not set'' @ ''\<newline>'' @ ''Issue Type: '' @ fmt_name (issuetype (fields_dict i)) ''Not set'' @ ''\<newline>'' @ ''Assignee: '' @ fmt_name (assignee (fields_dict i)) ''Unassigned'' @ ''\<newline>'' @ ''Status: '' @ fmt_name (status (fields_dict i)) ''Unknown'' @ ''\<newline>'' @ ''Labels: '' @ fmt_list (labels (fields_dict i)) @ ''\<newline>'' @ ''Components: '' @ fmt_list (component_names (components (fields_dict i))) @ ''\<newline>''"])
    (simp add: issue_info_def Let_def)

lemma info_line_4:
  "sublist (''\<newline>Priority: '' @ fmt_name (priority (fields_dict i)) ''Not set'' @ ''\<newline>'') (issue_info i)"
  by (rule info_part[where ps = "''\<newline>CURRENT TICKET:'' @ ''\<newline>Key: '' @ key i @ ''\<newline>Title: '' @ fmt_get (summary (fields_dict i)) ''No title'' @ ''\<newline>Description: '' @ fmt_get (description (fields_dict i)) ''No description''"
        and ss = "''Issue Type: '' @ fmt_name (issuetype (fields_dict i)) ''Not set'' @ ''\<newline>'' @ ''Assignee: '' @ fmt_name (assignee (fields_dict i)) ''Unassigned'' @ ''\<newline>'' @ ''Status: '' @ fmt_name (status (fields_dict i)) ''Unknown'' @ ''\<newline>'' @ ''Labels: '' @ fmt_list (labels (fields_dict i)) @ ''\<newline>'' @ ''Components: '' @ fmt_list (component_names (components (fields_dict i))) @ ''\<newline>''"])
    (simp add: issue_info_def Let_def)

lemma info_line_5:
  "sublist (''\<newline>Issue Type: '' @ fmt_name (issuetype (fields_dict i)) ''Not set'' @ ''\<newline>'') (issue_info i)"
  by (rule info_part[where ps = "''\<newline>CURRENT TICKET:'' @ ''\<newline>Key: '' @ key i @ ''\<newline>Title: '' @ fmt_get (summary (fields_dict i)) ''No title'' @ ''\<newline>Description: '' @ fmt_get (description (fields_dict i)) ''No description'' @ ''\<newline>Priority: '' @ fmt_name (priority (fields_dict i)) ''Not set''"
        and ss = "''Assignee: '' @ fmt_name (assignee (fields_dict i)) ''Unassigned'' @ ''\<newline>'' @ ''Status: '' @ fmt_name (status (fields_dict i)) ''Unknown'' @ ''\<newline>'' @ ''Labels: '' @ fmt_list (labels (fields_dict i)) @ ''\<newline>'' @ ''Components: '' @ fmt_list (component_names (components (fields_dict i))) @ ''\<newline>''"])
    (simp add: issue_info_def Let_def)

lemma info_line_6:
  "sublist (''\<newline>Assignee: '' @ fmt_name (assignee (fields_dict i)) ''Unassigned'' @ ''\<newline>'') (issue_info i)"
  by (rule info_part[where ps = "''\<newline>CURRENT TICKET:'' @ ''\<newline>Key: '' @ key i @ ''\<newline>Title: '' @ fmt_get (summary (fields_dict i)) ''No title'' @ ''\<newline>Description: '' @ fmt_get (description (fields_dict i)) ''No description'' @ ''\<newline>Priority: '' @ fmt_name (priority (fields_dict i)) ''Not set'' @ ''\<newline>Issue Type: '' @ fmt_name (issuetype (fields_dict i)) ''Not set''"
        and ss = "''Status: '' @ fmt_name (status (fields_dict i)) ''Unknown'' @ ''\<newline>'' @ ''Labels: '' @ fmt_list (labels (fields_dict i)) @ ''\<newline>'' @ ''Components: '' @ fmt_list (component_names (components (fields_dict i))) @ ''\<newline>''"])
    (simp add: issue_info_def Let_def)

lemma info_line_7:
  "sublist (''\<newline>Status: '' @ fmt_name (status (fields_dict i)) ''Unknown'' @ ''\<newline>'') (issue_info i)"
  by (rule info_part[where ps = "''\<newline>CURRENT TICKET:'' @ ''\<newline>Key: '' @ key i @ ''\<newline>Title: '' @ fmt_get (summary (fields_dict i)) ''No title'' @ ''\<newline>Description: '' @ fmt_get (description (fields_dict i)) ''No description'' @ ''\<newline>Priority: '' @ fmt_name (priority (fields_dict i)) ''Not set'' @ ''\<newline>Issue Type: '' @ fmt_name (issuetype (fields_dict i)) ''Not set'' @ ''\<newline>Assignee: '' @ fmt_name (assignee (fields_dict i)) ''Unassigned''"
        and ss = "''Labels: '' @ fmt_list (labels (fields_dict i)) @ ''\<newline>'' @ ''Components: '' @ fmt_list (component_names (components (fields_dict i))) @ ''\<newline>''"])
    (simp add: issue_info_def Let_def)

lemma info_line_8:
  "sublist (''\<newline>Labels: '' @ fmt_list (labels (fields_dict i)) @ ''\<newline>'') (issue_info i)"
  by (rule info_part[where ps = "''\<newline>CURRENT TICKET:'' @ ''\<newline>Key: '' @ key i @ ''\<newline>Title: '' @ fmt_get (summary (fields_dict i)) ''No title'' @ ''\<newline>Description: '' @ fmt_get (description (fields_dict i)) ''No description'' @ ''\<newline>Priority: '' @ fmt_name (priority (fields_dict i)) ''Not set'' @ ''\<newline>Issue Type: '' @ fmt_name (issuetype (fields_dict i)) ''Not set'' @ ''\<newline>Assignee: '' @ fmt_name (assignee (fields_dict i)) ''Unassigned'' @ ''\<newline>Status: '' @ fmt_name (status (fields_dict i)) ''Unknown''"
        and ss = "''Components: '' @ fmt_list (component_names (components (fields_dict i))) @ ''\<newline>''"])
    (simp add: issue_info_def Let_def)

lemma info_line_9:
  "sublist (''\<newline>Components: '' @ fmt_list (component_names (components (fields_dict i))) @ ''\<newline>'') (issue_info i)"
  by (rule info_part[where ps = "''\<newline>CURRENT TICKET:'' @ ''\<newline>Key: '' @ key i @ ''\<newline>Title: '' @ fmt_get (summary (fields_dict i)) ''No title'' @ ''\<newline>Description: '' @ fmt_get (description (fields_dict i)) ''No description'' @ ''\<newline>Priority: '' @ fmt_name (priority (fields_dict i)) ''Not set'' @ ''\<newline>Issue Type: '' @ fmt_name (issuetype (fields_dict i)) ''Not set'' @ ''\<newline>Assignee: '' @ fmt_name (assignee (fields_dict i)) ''Unassigned'' @ ''\<newline>Status: '' @ fmt_name (status (fields_dict i)) ''Unknown'' @ ''\<newline>Labels: '' @ fmt_list (labels (fields_dict i))"
        and ss = "[]"])
    (simp add: issue_info_def Let_def)

lemmas info_lines = info_line_1 info_line_2 info_line_3 info_line_4 info_line_5 info_line_6 info_line_7 info_line_8 info_line_9

text \<open>
  Claim C6, as amended. The prompt contains the block of the ticket, one line per field.
  The line \<open>Key:\<close> carries the key and the line \<open>Title:\<close> the title, so each occurs
  in the prompt at least once. A field that has a value renders that value. A field that
  is absent renders its placeholder: \<open>No title\<close>, \<open>No description\<close>, \<open>Not set\<close> for
  priority and issue type, \<open>Unassigned\<close>, \<open>Unknown\<close> for the status; for these four
  objects also when the entry is \<open>None\<close> or has no name. Labels and components are
  joined by a comma and a blank, and render \<open>None\<close> when absent, \<open>None\<close> or empty.
\<close>

theorem prompt_renders_ticket:
  fixes self :: llama_jira_enhancer and i :: issue and c :: string
  defines "p \<equiv> build_prompt self i c" and "f \<equiv> fields_dict i"
  shows
   "sublist (''\<newline>Key: '' @ key i @ ''\<newline>'') p \<and>
    (summary f = Val t \<longrightarrow> sublist (''\<newline>Title: '' @ t @ ''\<newline>'') p) \<and>
    (summary f = Missing \<longrightarrow> sublist ''\<newline>Title: No title\<newline>'' p) \<and>
    (description f = Val d \<longrightarrow> sublist (''\<newline>Description: '' @ d @ ''\<newline>'') p) \<and>
    (description f = Missing \<longrightarrow> sublist ''\<newline>Description: No description\<newline>'' p) \<and>
    (priority f = Val (Val pn) \<longrightarrow> sublist (''\<newline>Priority: '' @ pn @ ''\<newline>'') p) \<and>
    (priority f \<in> {Missing, Null, Val Missing} \<longrightarrow> sublist ''\<newline>Priority: Not set\<newline>'' p) \<and>
    (issuetype f = Val (Val tn) \<longrightarrow> sublist (''\<newline>Issue Type: '' @ tn @ ''\<newline>'') p) \<and>
    (issuetype f \<in> {Missing, Null, Val Missing} \<longrightarrow> sublist ''\<newline>Issue Type: Not set\<newline>'' p) \<and>
    (assignee f = Val (Val an) \<longrightarrow> sublist (''\<newline>Assignee: '' @ an @ ''\<newline>'') p) \<and>
    (assignee f \<in> {Missing, Null, Val Missing} \<longrightarrow> sublist ''\<newline>Assignee: Unassigned\<newline>'' p) \<and>
    (status f = Val (Val sn) \<longrightarrow> sublist (''\<newline>Status: '' @ sn @ ''\<newline>'') p) \<and>
    (status f \<in> {Missing, Null, Val Missing} \<longrightarrow> sublist ''\<newline>Status: Unknown\<newline>'' p) \<and>
    (labels f = Val (x # xs) \<longrightarrow>
       sublist (''\<newline>Labels: '' @ join '', '' (x # xs) @ ''\<newline>'') p) \<and>
    (labels f \<in> {Missing, Null, Val []} \<longrightarrow> sublist ''\<newline>Labels: None\<newline>'' p) \<and>
    (components f = Val (y # ys) \<longrightarrow>
       sublist (''\<newline>Components: '' @ join '', '' (map component_name (y # ys)) @ ''\<newline>'') p) \<and>
    (components f \<in> {Missing, Null, Val []} \<longrightarrow> sublist ''\<newline>Components: None\<newline>'' p)"
proof -
  note l = info_lines[of i, THEN sublist_of_info[of _ i self c], folded p_def f_def]
  have 1: "sublist (''\<newline>Key: '' @ key i @ ''\<newline>'') p" using l(1) .
  have 2: "summary f = Val t \<longrightarrow> sublist (''\<newline>Title: '' @ t @ ''\<newline>'') p"
    using l(2) by auto
  have 3: "summary f = Missing \<longrightarrow> sublist ''\<newline>Title: No title\<newline>'' p"
    using l(2) by auto
  have 4: "description f = Val d \<longrightarrow> sublist (''\<newline>Description: '' @ d @ ''\<newline>'') p"
    using l(3) by auto
  have 5: "description f = Missing \<longrightarrow> sublist ''\<newline>Description: No description\<newline>'' p"
    using l(3) by auto
  have 6: "priority f = Val (Val pn) \<longrightarrow> sublist (''\<newline>Priority: '' @ pn @ ''\<newline>'') p"
    using l(4) by auto
  have 7: "priority f \<in> {Missing, Null, Val Missing} \<longrightarrow> sublist ''\<newline>Priority: Not set\<newline>'' p"
    using l(4) by auto
  have 8: "issuetype f = Val (Val tn) \<longrightarrow> sublist (''\<newline>Issue Type: '' @ tn @ ''\<newline>'') p"
    using l(5) by auto
  have 9: "issuetype f \<in> {Missing, Null, Val Missing} \<longrightarrow> sublist ''\<newline>Issue Type: Not set\<newline>'' p"
    using l(5) by auto
  have 10: "assignee f = Val (Val an) \<longrightarrow> sublist (''\<newline>Assignee: '' @ an @ ''\<newline>'') p"
    using l(6) by auto
  have 11: "assignee f \<in> {Missing, Null, Val Missing} \<longrightarrow> sublist ''\<newline>Assignee: Unassigned\<newline>'' p"
    using l(6) by auto
  have 12: "status f = Val (Val sn) \<longrightarrow> sublist (''\<newline>Status: '' @ sn @ ''\<newline>'') p"
    using l(7) by auto
  have 13: "status f \<in> {Missing, Null, Val Missing} \<longrightarrow> sublist ''\<newline>Status: Unknown\<newline>'' p"
    using l(7) by auto
  have 14: "labels f = Val (x # xs) \<longrightarrow>
       sublist (''\<newline>Labels: '' @ join '', '' (x # xs) @ ''\<newline>'') p"
    using l(8) by auto
  have 15: "labels f \<in> {Missing, Null, Val []} \<longrightarrow> sublist ''\<newline>Labels: None\<newline>'' p"
    using l(8) by auto
  have 16: "components f = Val (y # ys) \<longrightarrow>
       sublist (''\<newline>Components: '' @ join '', '' (map component_name (y # ys)) @ ''\<newline>'') p"
    using l(9) by auto
  have 17: "components f \<in> {Missing, Null, Val []} \<longrightarrow> sublist ''\<newline>Components: None\<newline>'' p"
    using l(9) by auto
  from 1 2 3 4 5 6 7 8 9 10 11 12 13 14 15 16 17 show ?thesis by blast
qed

lemma occurrences_append: "occurrences n s \<le> occurrences n (a @ s)"
proof (induction a)
  case Nil
  show ?case by simp
next
  case (Cons x a)
  then show ?case by (cases "a @ s") auto
qed

lemma occurrences_twice:
  assumes "n \<noteq> []"
  shows "2 \<le> occurrences n (a @ n @ b @ n @ c)"
proof -
  obtain x n' where n: "n = x # n'" using assms by (cases n) auto
  have "1 \<le> occurrences n (n @ c)" using n by simp
  also have "\<dots> \<le> occurrences n ((n' @ b) @ n @ c)" by (rule occurrences_append)
  finally have "2 \<le> occurrences n (n @ b @ n @ c)" using n by simp
  also have "\<dots> \<le> occurrences n (a @ n @ b @ n @ c)" by (rule occurrences_append)
  finally show ?thesis .
qed

text \<open>
  Claim C6 as it is stated fails in two ways. The key and the title occur more than once
  when the text of the ticket repeats them, as the description of the example ticket
  does. And a ticket without status renders \<open>Unknown\<close>, which is none of the
  placeholders the claim lists.
\<close>

theorem prompt_key_and_title_counterexample:
  "key example_issue = ''DIGI-894'' \<and>
   2 \<le> occurrences ''DIGI-894'' (build_prompt (llama_enhancer JiraIssueEnhancer) example_issue []) \<and>
   summary (fields_dict example_issue) = Val ''Login fails'' \<and>
   2 \<le> occurrences ''Login fails''
          (build_prompt (llama_enhancer JiraIssueEnhancer) example_issue []) \<and>
   status (fields_dict blank_issue) = Missing \<and>
   sublist ''\<newline>Status: Unknown\<newline>''
     (build_prompt (llama_enhancer JiraIssueEnhancer) blank_issue [])"
proof -
  let ?p = "build_prompt (llama_enhancer JiraIssueEnhancer) example_issue []"
  have k: "?p = (load_default_policy @ ''\<newline>\<newline>\<newline>CURRENT TICKET:\<newline>Key: '')
      @ ''DIGI-894'' @ ''\<newline>Title: Login fails\<newline>Description: Login fails on Safari, see ''
      @ ''DIGI-894'' @ (''\<newline>Priority: High\<newline>Issue Type: Bug\<newline>Assignee: Dana Kim\<newline>Status: Open\<newline>Labels: web, auth\<newline>Components: UI, Login\<newline>\<newline>\<newline>\<newline>\<newline>'' @ task_text)"
    by (simp add: build_prompt_def issue_info_def example_issue_def example_fields_def
        default_enhancer)
  have t: "?p = (load_default_policy @ ''\<newline>\<newline>\<newline>CURRENT TICKET:\<newline>Key: DIGI-894\<newline>Title: '')
      @ ''Login fails'' @ ''\<newline>Description: ''
      @ ''Login fails'' @ ('' on Safari, see DIGI-894\<newline>Priority: High\<newline>Issue Type: Bug\<newline>Assignee: Dana Kim\<newline>Status: Open\<newline>Labels: web, auth\<newline>Components: UI, Login\<newline>\<newline>\<newline>\<newline>\<newline>'' @ task_text)"
    by (simp add: build_prompt_def issue_info_def example_issue_def example_fields_def
        default_enhancer)
  have 1: "2 \<le> occurrences ''DIGI-894'' ?p"
    by (subst k, rule occurrences_twice) simp
  have 2: "2 \<le> occurrences ''Login fails'' ?p"
    by (subst t, rule occurrences_twice) simp
  have 3: "sublist ''\<newline>Status: Unknown\<newline>''
     (build_prompt (llama_enhancer JiraIssueEnhancer) blank_issue [])"
    using info_line_7[of blank_issue, THEN sublist_of_info]
    by (simp add: blank_issue_def blank_fields_def)
  from 1 2 3 show ?thesis
    by (simp add: example_issue_def example_fields_def blank_issue_def blank_fields_def)
qed

theorem prompt_renders_ticket_witness:
  "sublist ''\<newline>Key: DIGI-894\<newline>'' (build_prompt (llama_enhancer JiraIssueEnhancer) example_issue []) \<and>
   sublist ''\<newline>Title: Login fails\<newline>'' (build_prompt (llama_enhancer JiraIssueEnhancer) example_issue []) \<and>
   sublist ''\<newline>Description: Login fails on Safari, see DIGI-894\<newline>''
     (build_prompt (llama_enhancer JiraIssueEnhancer) example_issue []) \<and>
   sublist ''\<newline>Priority: High\<newline>'' (build_prompt (llama_enhancer JiraIssueEnhancer) example_issue []) \<and>
   sublist ''\<newline>Issue Type: Bug\<newline>'' (build_prompt (llama_enhancer JiraIssueEnhancer) example_issue []) \<and>
   sublist ''\<newline>Assignee: Dana Kim\<newline>'' (build_prompt (llama_enhancer JiraIssueEnhancer) example_issue []) \<and>
   sublist ''\<newline>Status: Open\<newline>'' (build_prompt (llama_enhancer JiraIssueEnhancer) example_issue []) \<and>
   sublist ''\<newline>Labels: web, auth\<newline>'' (build_prompt (llama_enhancer JiraIssueEnhancer) example_issue []) \<and>
   sublist ''\<newline>Components: UI, Login\<newline>''
     (build_prompt (llama_enhancer JiraIssueEnhancer) example_issue []) \<and>
   sublist ''\<newline>Title: No title\<newline>'' (build_prompt (llama_enhancer JiraIssueEnhancer) blank_issue []) \<and>
   sublist ''\<newline>Description: No description\<newline>''
     (build_prompt (llama_enhancer JiraIssueEnhancer) blank_issue []) \<and>
   sublist ''\<newline>Priority: Not set\<newline>'' (build_prompt (llama_enhancer JiraIssueEnhancer) blank_issue []) \<and>
   sublist ''\<newline>Issue Type: Not set\<newline>'' (build_prompt (llama_enhancer JiraIssueEnhancer) blank_issue []) \<and>
   sublist ''\<newline>Assignee: Unassigned\<newline>'' (build_prompt (llama_enhancer JiraIssueEnhancer) blank_issue []) \<and>
   sublist ''\<newline>Status: Unknown\<newline>'' (build_prompt (llama_enhancer JiraIssueEnhancer) blank_issue []) \<and>
   sublist ''\<newline>Labels: None\<newline>'' (build_prompt (llama_enhancer JiraIssueEnhancer) blank_issue []) \<and>
   sublist ''\<newline>Components: None\<newline>'' (build_prompt (llama_enhancer JiraIssueEnhancer) blank_issue [])"
  using prompt_renders_ticket[where i = example_issue and self = "llama_enhancer JiraIssueEnhancer" and c = "[]"
      and t = "''Login fails''" and d = "''Login fails on Safari, see DIGI-894''"
      and pn = "''High''" and tn = "''Bug''" and an = "''Dana Kim''" and sn = "''Open''"
      and x = "''web''" and xs = "[''auth'']" and y = "\<lparr>component_name = ''UI''\<rparr>"
      and ys = "[\<lparr>component_name = ''Login''\<rparr>]"]
    prompt_renders_ticket[where i = blank_issue and self = "llama_enhancer JiraIssueEnhancer" and c = "[]"
      and t = "''Login fails''" and d = "''Login fails on Safari, see DIGI-894''"
      and pn = "''High''" and tn = "''Bug''" and an = "''Dana Kim''" and sn = "''Open''"
      and x = "''web''" and xs = "[''auth'']" and y = "\<lparr>component_name = ''UI''\<rparr>"
      and ys = "[\<lparr>component_name = ''Login''\<rparr>]"]
  by (simp add: example_issue_def example_fields_def blank_issue_def blank_fields_def)

section \<open>Properties of the Connect application\<close>

lemma serve_uninstalled_file:
  "tenants_file (snd (serve_uninstalled a get_json)) = tenants_file a"
  by (simp add: serve_uninstalled_def split: sum.splits option.splits)

text \<open>
  Claim C2. The uninstall callback removes the record of the client from the registry
  and acknowledges with 204, but it does not persist: \<open>serve_uninstalled\<close> never calls
  \<open>save_tenants\<close>, which \<open>serve_installed\<close> calls after its update. For a tenant that is
  installed and on file, the file still holds the record after the callback.
\<close>

theorem uninstall_does_not_persist:
  "fst (serve_uninstalled example_app (Inr (JObj [(''clientKey'', JStr ''acme'')]))) = (Text [], 204) \<and>
   installed_tenants (snd (serve_uninstalled example_app (Inr (JObj [(''clientKey'', JStr ''acme'')]))))
      (KStr ''acme'') = None \<and>
   tenants_file (snd (serve_uninstalled example_app (Inr (JObj [(''clientKey'', JStr ''acme'')]))))
     = Some [KStr ''acme'' \<mapsto> example_tenant]"
  by (simp add: serve_uninstalled_def example_app_def json_get_def)

text \<open>
  Claim C4, as amended. Take a request whose header carries a token, and let the
  unverified decoding of the token give claims whose issuer can key the registry (a
  string, a number, a boolean, \<open>None\<close> or no \<open>iss\<close> claim at all). When the registry has no record for the
  issuer, the answer is 401 with \<open>App not installed for this tenant\<close>, whatever the
  verifying decoder would say of the token and whatever the wrapped handler would do.
  When the registry has a record, the answer is that of the verification with the
  shared secret of that record.
\<close>

theorem unknown_tenant_before_verification:
  "prefix ''JWT '' auth_header \<and> decode_unverified (drop 4 auth_header) = Inr claims \<and>
   py_key (case map_of claims ''iss'' of None \<Rightarrow> JNull | Some v \<Rightarrow> v) = Some k \<longrightarrow>
     (installed_tenants a k = None \<longrightarrow>
        jwt_required a decode_unverified decode_verified f auth_header
          = (jsonify_error ''App not installed for this tenant'', 401)) \<and>
     (installed_tenants a k = Some t \<longrightarrow>
        jwt_required a decode_unverified decode_verified f auth_header
          = (case decode_verified (drop 4 auth_header) (shared_secret t) of
               Inl e \<Rightarrow> auth_failure e
             | Inr payload \<Rightarrow> (case f payload of Inl e \<Rightarrow> auth_failure e | Inr r \<Rightarrow> r)))"
  by (simp add: jwt_required_def Let_def)

theorem unknown_tenant_before_verification_witness:
  "jwt_required example_app example_decode (\<lambda>token secret. Inr (JObj [(''iss'', JStr ''other'')]))
     (\<lambda>payload. Inr (Text ''ok'', 200)) ''JWT token-of-other''
   = (jsonify_error ''App not installed for this tenant'', 401) \<and>
   jwt_required example_app example_decode
     (\<lambda>token secret. if secret = JStr ''s3cr3t'' then Inr (JObj [(''iss'', JStr ''acme'')])
                      else Inl (PyExn InvalidTokenError ''Signature verification failed''))
     (\<lambda>payload. Inr (Text ''ok'', 200)) ''JWT token-of-acme''
   = (Text ''ok'', 200)"
  using unknown_tenant_before_verification[of "''JWT token-of-other''" example_decode
      "[(''iss'', JStr ''other'')]" "KStr ''other''" example_app
      "\<lambda>token secret. Inr (JObj [(''iss'', JStr ''other'')])"
      "\<lambda>payload. Inr (Text ''ok'', 200)" example_tenant]
    unknown_tenant_before_verification[of "''JWT token-of-acme''" example_decode
      "[(''iss'', JStr ''acme''), (''exp'', JInt 1700003600)]" "KStr ''acme''" example_app
      "\<lambda>token secret. if secret = JStr ''s3cr3t'' then Inr (JObj [(''iss'', JStr ''acme'')])
                      else Inl (PyExn InvalidTokenError ''Signature verification failed'')"
      "\<lambda>payload. Inr (Text ''ok'', 200)" example_tenant]
  by (simp add: example_decode_def example_app_def example_tenant_def prefix_code)

text \<open>
  Claim C4 as it is stated fails for a token whose \<open>iss\<close> claim is a list: no record
  can be keyed by it, yet the answer is not the unknown-tenant error but that of the last
  \<open>except\<close> clause, which reports the \<open>TypeError\<close> of the registry test.
\<close>

theorem unhashable_issuer_counterexample:
  "example_decode ''token-of-list'' = Inr [(''iss'', JArr [JStr ''other''])] \<and>
   jwt_required example_app example_decode
     (\<lambda>token secret. Inl (PyExn InvalidTokenError ''Signature verification failed''))
     (\<lambda>payload. Inr (Text ''ok'', 200)) ''JWT token-of-list''
   = (jsonify_error (''Authentication error: unhashable type: '' @ quoted ''list''), 401)"
  by (simp add: jwt_required_def example_decode_def prefix_code auth_failure_def unhashable_def)

text \<open>
  Claim C10, as amended. For a body that is a JSON object whose \<open>clientKey\<close> is absent,
  \<open>None\<close>, a string, a number or a boolean, and while \<open>tenants.json\<close> can be written, the
  install callback validates nothing: it creates or replaces the record under the key
  given (the key \<open>None\<close> when \<open>clientKey\<close> is absent), stores the secret and the base URL
  as given (\<open>None\<close> when absent) with the time of the call, writes the registry to the
  file and acknowledges with an empty 204.
\<close>

theorem install_without_validation:
  assumes "py_key (case map_of entries ''clientKey'' of None \<Rightarrow> JNull | Some v \<Rightarrow> v) = Some k"
    and "write_error a = None"
  shows "serve_installed a now (Inr (JObj entries))
     = ((Text [], 204),
        a\<lparr>installed_tenants := (installed_tenants a)
             (k \<mapsto> \<lparr>shared_secret = (case map_of entries ''sharedSecret'' of None \<Rightarrow> JNull | Some v \<Rightarrow> v),
                    tenant_base_url = (case map_of entries ''baseUrl'' of None \<Rightarrow> JNull | Some v \<Rightarrow> v),
                    installed_at = now\<rparr>),
          tenants_file := Some ((installed_tenants a)
             (k \<mapsto> \<lparr>shared_secret = (case map_of entries ''sharedSecret'' of None \<Rightarrow> JNull | Some v \<Rightarrow> v),
                    tenant_base_url = (case map_of entries ''baseUrl'' of None \<Rightarrow> JNull | Some v \<Rightarrow> v),
                    installed_at = now\<rparr>))\<rparr>) \<and>
      (map_of entries ''clientKey'' = None \<longrightarrow> k = KNone)"
  using assms by (auto simp: serve_installed_def json_get_def save_tenants_def Let_def)

theorem install_without_validation_witness:
  "serve_installed example_app 1700000500 (Inr (JObj []))
     = ((Text [], 204),
        example_app\<lparr>installed_tenants := (installed_tenants example_app)
             (KNone \<mapsto> \<lparr>shared_secret = JNull, tenant_base_url = JNull, installed_at = 1700000500\<rparr>),
          tenants_file := Some ((installed_tenants example_app)
             (KNone \<mapsto> \<lparr>shared_secret = JNull, tenant_base_url = JNull, installed_at = 1700000500\<rparr>))\<rparr>)"
  using install_without_validation[of "[]" KNone example_app 1700000500]
  by (simp add: example_app_def)

text \<open>
  Claim C10 as it is stated fails for three bodies and states: a JSON body that is not
  an object, a \<open>clientKey\<close> that is a list, and a file that cannot be written are each
  answered with 400; in the first two the registry is left as it was.
\<close>

theorem install_rejected_counterexample:
  "serve_installed example_app 1700000500 (Inr (JArr []))
     = ((jsonify_error (quoted ''list'' @ '' object has no attribute '' @ quoted ''get''), 400),
        example_app) \<and>
   serve_installed example_app 1700000500 (Inr (JObj [(''clientKey'', JArr [JStr ''acme''])]))
     = ((jsonify_error (''unhashable type: '' @ quoted ''list''), 400), example_app) \<and>
   fst (serve_installed (example_app\<lparr>write_error := Some (PyExn LibraryError ''Permission denied'')\<rparr>)
          1700000500 (Inr (JObj [(''clientKey'', JStr ''beta'')])))
     = (jsonify_error ''Permission denied'', 400)"
  by (simp add: serve_installed_def json_get_def no_attribute_def unhashable_def save_tenants_def
      example_app_def)

end
